theory Spec2Isabelle
  imports Main "HOL-Library.Word" "HOL-Library.Multiset" "HOL-Library.Char_ord"
    "HOL-Library.List_Lexorder"
begin

section \<open>Errors and the query model\<close>

text \<open>
  The module \<open>anitya/lib/model.py\<close> builds SQLAlchemy queries and evaluates them.
  Exceptions are values: \<open>ValueError\<close> carries the message the source raises with,
  \<open>PluginError\<close> is what a plugin registry raises for a name it does not know, and
  \<open>StorageError\<close> is an error reported by the storage engine.
\<close>

datatype error = ValueError string | PluginError string | StorageError

text \<open>
  A query is the list of rows it selects, in the order in which the engine would produce
  them now, together with the OFFSET and LIMIT set on it so far. For \<open>order_by\<close> it
  also keeps the same rows in the order the engine scans them, which is the order of a
  query without ORDER BY, and the ORDER BY set so far, as the sort it performs on the
  scanned rows. \<open>filter\<close>, \<open>order_by\<close>, \<open>offset\<close> and \<open>limit\<close> return a new query;
  \<open>all\<close> and \<open>count\<close> evaluate it. Every call site of the module filters and orders
  before it slices, so filtering and ordering act on the row lists.

  A criterion of \<open>order_by\<close> is a stable sort on a key; rows of equal keys keep the
  order of the scan. \<open>order_by\<close> on a query that is ordered already adds its criterion
  after the earlier ones: the rows are sorted by the new key first and by the earlier
  criteria after that, so that the new key only decides between rows that the earlier
  criteria leave equal. \<open>order_by(None)\<close> removes the ORDER BY.
\<close>

record 'a query =
  rows :: "'a list"
  q_scanned :: "'a list"
  q_order :: "'a list \<Rightarrow> 'a list"
  q_offset :: "int option"
  q_limit :: "int option"

definition session_query :: "'a list \<Rightarrow> 'a query" where
  "session_query table =
     \<lparr>rows = table, q_scanned = table, q_order = (\<lambda>xs. xs), q_offset = None, q_limit = None\<rparr>"

definition filter_q :: "('a \<Rightarrow> bool) \<Rightarrow> 'a query \<Rightarrow> 'a query" where
  "filter_q P q = q\<lparr>rows := filter P (rows q), q_scanned := filter P (q_scanned q)\<rparr>"

definition order_by_q :: "('a \<Rightarrow> 'k::linorder) \<Rightarrow> 'a query \<Rightarrow> 'a query" where
  "order_by_q key q =
     q\<lparr>rows := q_order q (sort_key key (q_scanned q)),
       q_order := (\<lambda>xs. q_order q (sort_key key xs))\<rparr>"

definition order_by_none_q :: "'a query \<Rightarrow> 'a query" where
  "order_by_none_q q = q\<lparr>rows := q_scanned q, q_order := (\<lambda>xs. xs)\<rparr>"

definition offset_q :: "int \<Rightarrow> 'a query \<Rightarrow> 'a query" where
  "offset_q n q = q\<lparr>q_offset := Some n\<rparr>"

definition limit_q :: "int \<Rightarrow> 'a query \<Rightarrow> 'a query" where
  "limit_q n q = q\<lparr>q_limit := Some n\<rparr>"

text \<open>
  Evaluation skips OFFSET rows and then keeps at most LIMIT rows. A negative OFFSET or
  LIMIT is rejected by the engine. \<open>count\<close> counts the rows of the sliced query, as
  SQLAlchemy's \<open>Query.count\<close> wraps the whole statement in a subquery.
\<close>

definition negative :: "int option \<Rightarrow> bool" where
  "negative v = (case v of None \<Rightarrow> False | Some n \<Rightarrow> n < 0)"

definition sliced :: "'a query \<Rightarrow> 'a list" where
  "sliced q =
     (let skipped = (case q_offset q of None \<Rightarrow> rows q | Some k \<Rightarrow> drop (nat k) (rows q))
      in case q_limit q of None \<Rightarrow> skipped | Some n \<Rightarrow> take (nat n) skipped)"

definition all_q :: "'a query \<Rightarrow> error + 'a list" where
  "all_q q = (if negative (q_offset q) \<or> negative (q_limit q) then Inl StorageError
              else Inr (sliced q))"

definition count_q :: "'a query \<Rightarrow> error + int" where
  "count_q q = (case all_q q of Inl e \<Rightarrow> Inl e | Inr xs \<Rightarrow> Inr (int (length xs)))"

section \<open>The pagination primitive\<close>

record 'a Page =
  items :: "'a list"
  page :: int
  items_per_page :: int
  total_items :: int

text \<open>
  \<open>BaseQuery.paginate\<close>. The arguments \<open>page\<close> and \<open>items_per_page\<close> are \<open>None\<close>
  when omitted. \<open>order_by\<close> is the sort key, which stands for one criterion or a tuple
  of criteria, or \<open>None\<close> when omitted: the source then calls \<open>self.order_by(None)\<close>,
  which removes any ORDER BY of the receiver.
\<close>

definition apply_order :: "('a \<Rightarrow> 'k::linorder) option \<Rightarrow> 'a query \<Rightarrow> 'a query" where
  "apply_order order_by q =
     (case order_by of None \<Rightarrow> order_by_none_q q | Some key \<Rightarrow> order_by_q key q)"

definition paginate ::
  "'a query \<Rightarrow> int option \<Rightarrow> int option \<Rightarrow> ('a \<Rightarrow> 'k::linorder) option \<Rightarrow> error + 'a Page"
where
  "paginate self page_arg items_per_page_arg order_by =
     (let pg = (case page_arg of None \<Rightarrow> 1 | Some p \<Rightarrow> p);
          ipp = (case items_per_page_arg of None \<Rightarrow> 25 | Some n \<Rightarrow> n)
      in if pg < 1 then Inl (ValueError ''page must be 1 or greater.'')
         else if ipp < 1 then Inl (ValueError ''items_per_page must be 1 or greater.'')
         else
           (let q = apply_order order_by self
            in case count_q q of
                 Inl e \<Rightarrow> Inl e
               | Inr n_total \<Rightarrow>
                   (case all_q (offset_q (ipp * (pg - 1)) (limit_q ipp q)) of
                      Inl e \<Rightarrow> Inl e
                    | Inr found \<Rightarrow>
                        Inr \<lparr>items = found, page = pg, items_per_page = ipp,
                             total_items = n_total\<rparr>)))"

text \<open>
  What the properties of \<open>paginate\<close> are stated with: the rows of the receiver in the
  order that \<open>paginate\<close> gives them (the scanned order when \<open>order_by\<close> is omitted,
  otherwise the order of the receiver's ORDER BY followed by the given key), a query that
  has not been sliced yet, an ORDER BY that rearranges the rows it is given, and the items
  of page \<open>k\<close> (empty if the call fails).
\<close>

definition ordered :: "('a \<Rightarrow> 'k::linorder) option \<Rightarrow> 'a query \<Rightarrow> 'a list" where
  "ordered order_by self =
     (case order_by of
        None \<Rightarrow> q_scanned self
      | Some key \<Rightarrow> q_order self (sort_key key (q_scanned self)))"

definition rearranges :: "('a list \<Rightarrow> 'a list) \<Rightarrow> bool" where
  "rearranges f = (\<forall>xs. mset (f xs) = mset xs)"

definition unsliced :: "'a query \<Rightarrow> bool" where
  "unsliced q = (q_offset q = None \<and> q_limit q = None)"

definition page_items ::
  "'a query \<Rightarrow> ('a \<Rightarrow> 'k::linorder) option \<Rightarrow> int \<Rightarrow> nat \<Rightarrow> 'a list" where
  "page_items self order_by ipp k =
     (case paginate self (Some (int k)) (Some ipp) order_by of
        Inl e \<Rightarrow> [] | Inr p \<Rightarrow> items p)"

section \<open>The secondary pagination mode\<close>

text \<open>
  The \<open>page\<close> argument of the listing operations comes from the caller unconverted: it is
  \<open>None\<close>, an integer or a string. \<open>truthy\<close> is Python's truth value of it.
\<close>

datatype pyval = PNone | PInt int | PStr string

definition truthy :: "pyval \<Rightarrow> bool" where
  "truthy v = (case v of PNone \<Rightarrow> False | PInt n \<Rightarrow> n \<noteq> 0 | PStr s \<Rightarrow> s \<noteq> [])"

text \<open>
  \<open>_paginate_query\<close>. Python's \<open>int()\<close> on a string is the parameter \<open>to_int\<close>, which is
  \<open>None\<close> where \<open>int()\<close> raises \<open>ValueError\<close>. After the conversion a truthy page is an
  integer.
\<close>

definition paginate_query :: "(string \<Rightarrow> int option) \<Rightarrow> 'a query \<Rightarrow> pyval \<Rightarrow> 'a query" where
  "paginate_query to_int query page_arg =
     (let pg = (if truthy page_arg
                then (case page_arg of
                        PInt n \<Rightarrow> PInt n
                      | PStr s \<Rightarrow> (case to_int s of Some n \<Rightarrow> PInt n | None \<Rightarrow> PNone)
                      | PNone \<Rightarrow> PNone)
                else page_arg)
      in if truthy pg
         then (case pg of
                 PInt n \<Rightarrow>
                   (let limit = 50; offset = (n - 1) * limit
                    in limit_q limit (offset_q offset query))
               | _ \<Rightarrow> query)
         else query)"

text \<open>
  A reading of \<open>int()\<close> for concrete inputs: an optional sign and ASCII decimal digits.
\<close>

definition digit_of :: "char \<Rightarrow> nat option" where
  "digit_of c = (let n = (of_char c :: nat) in if 48 \<le> n \<and> n \<le> 57 then Some (n - 48) else None)"

fun digits_value :: "nat \<Rightarrow> string \<Rightarrow> nat option" where
  "digits_value acc [] = Some acc"
| "digits_value acc (c # cs) =
     (case digit_of c of None \<Rightarrow> None | Some d \<Rightarrow> digits_value (10 * acc + d) cs)"

definition decimal :: "string \<Rightarrow> int option" where
  "decimal s =
     (case s of
        [] \<Rightarrow> None
      | c # cs \<Rightarrow>
          if c = CHR ''-'' then (if cs = [] then None
                                 else map_option (\<lambda>n. - int n) (digits_value 0 cs))
          else if c = CHR ''+'' then (if cs = [] then None
                                      else map_option int (digits_value 0 cs))
          else map_option int (digits_value 0 s))"

section \<open>Entities and the session\<close>

text \<open>
  The mapped classes, with the columns the operations below read. Field names carry a
  prefix for the class, since several classes share column names: \<open>l_\<close> for \<open>Log\<close>,
  \<open>d_\<close> for \<open>Distro\<close>, \<open>k_\<close> for \<open>Packages\<close>, \<open>p_\<close> for \<open>Project\<close> and \<open>f_\<close> for
  \<open>ProjectFlag\<close>. A nullable column is an \<open>option\<close>. A \<open>DateTime\<close> is a number of
  seconds. The session is the content of the tables, each in the order the engine scans
  it.
\<close>

type_synonym datetime = int

record Log =
  l_id :: int
  l_user :: string
  l_project :: "string option"
  l_distro :: "string option"
  l_description :: string
  l_created_on :: datetime

record Distro =
  d_name :: string

record Packages =
  k_id :: int
  k_distro :: "string option"
  k_project_id :: "int option"
  k_package_name :: "string option"

record Project =
  p_id :: int
  p_name :: string
  p_homepage :: string
  p_backend :: "string option"
  p_ecosystem_name :: "string option"
  p_version_scheme :: "string option"
  p_latest_version :: "string option"
  p_logs :: "string option"

record ProjectFlag =
  f_id :: int
  f_project_id :: "int option"
  f_reason :: string
  f_user :: string
  f_state :: string
  f_created_on :: datetime

record session =
  t_logs :: "Log list"
  t_distros :: "Distro list"
  t_packages :: "Packages list"
  t_projects :: "Project list"
  t_flags :: "ProjectFlag list"

text \<open>
  A listing operation returns either the rows or, in count mode, their number.
\<close>

datatype 'a listing = Count int | Rows "'a list"

definition counted :: "error + int \<Rightarrow> error + 'a listing" where
  "counted r = (case r of Inl e \<Rightarrow> Inl e | Inr n \<Rightarrow> Inr (Count n))"

definition listed :: "error + 'a list \<Rightarrow> error + 'a listing" where
  "listed r = (case r of Inl e \<Rightarrow> Inl e | Inr xs \<Rightarrow> Inr (Rows xs))"

text \<open>
  Python's truth value of an optional string and of an optional integer.
\<close>

definition given :: "string option \<Rightarrow> bool" where
  "given v = (case v of None \<Rightarrow> False | Some s \<Rightarrow> s \<noteq> [])"

definition nonzero :: "int option \<Rightarrow> bool" where
  "nonzero v = (case v of None \<Rightarrow> False | Some n \<Rightarrow> n \<noteq> 0)"

text \<open>
  \<open>order_by(column.desc())\<close>: the rows by descending key, rows of equal key in their
  order. A filter on a column of a second table joins that table: a row is kept once for
  every row of the other table that satisfies the condition with it.
\<close>

definition order_by_desc_q :: "('a \<Rightarrow> 'k::linorder) \<Rightarrow> 'a query \<Rightarrow> 'a query" where
  "order_by_desc_q key q =
     q\<lparr>rows := q_order q (rev (sort_key key (rev (q_scanned q)))),
       q_order := (\<lambda>xs. q_order q (rev (sort_key key (rev xs))))\<rparr>"

definition join_q :: "'b list \<Rightarrow> ('a \<Rightarrow> 'b \<Rightarrow> bool) \<Rightarrow> 'a query \<Rightarrow> 'a query" where
  "join_q other on q =
     q\<lparr>rows := concat (map (\<lambda>r. map (\<lambda>_. r) (filter (on r) other)) (rows q)),
       q_scanned := concat (map (\<lambda>r. map (\<lambda>_. r) (filter (on r) other)) (q_scanned q))\<rparr>"

section \<open>The audit log and the flags\<close>

text \<open>
  The \<open>user\<close> argument of \<open>Log.search\<close> is \<open>None\<close>, one name, or a list or tuple of
  names.
\<close>

datatype user_arg = NoUser | User string | Users "string list"

definition Log_search ::
  "session \<Rightarrow> string option \<Rightarrow> datetime option \<Rightarrow> user_arg \<Rightarrow> int option \<Rightarrow> int option
     \<Rightarrow> bool \<Rightarrow> error + Log listing"
where
  "Log_search s project_name from_date user limit offset count_only =
     (let query = session_query (t_logs s);
          query = (if given project_name
                   then filter_q (\<lambda>l. l_project l = project_name) query else query);
          query = (case from_date of
                     Some d \<Rightarrow> filter_q (\<lambda>l. d \<le> l_created_on l) query
                   | None \<Rightarrow> query);
          query = (case user of
                     NoUser \<Rightarrow> query
                   | Users us \<Rightarrow>
                       if us \<noteq> [] then filter_q (\<lambda>l. l_user l \<in> set us) query else query
                   | User u \<Rightarrow>
                       if u \<noteq> [] then filter_q (\<lambda>l. l_user l = u) query else query);
          query = order_by_desc_q l_created_on query
      in if count_only then counted (count_q query)
         else
           (let query = (case offset of
                           Some k \<Rightarrow> if k \<noteq> 0 then offset_q k query else query
                         | None \<Rightarrow> query);
                query = (case limit of
                           Some n \<Rightarrow> if n \<noteq> 0 then limit_q n query else query
                         | None \<Rightarrow> query)
            in listed (all_q query)))"

definition ProjectFlag_all :: "session \<Rightarrow> pyval \<Rightarrow> bool \<Rightarrow> error + ProjectFlag listing" where
  "ProjectFlag_all s page_arg count_only =
     (let query = order_by_q f_created_on (session_query (t_flags s))
      in listed (all_q query))"

definition ProjectFlag_search ::
  "session \<Rightarrow> string option \<Rightarrow> datetime option \<Rightarrow> string option \<Rightarrow> string option
     \<Rightarrow> int option \<Rightarrow> int option \<Rightarrow> bool \<Rightarrow> error + ProjectFlag listing"
where
  "ProjectFlag_search s project_name from_date user state limit offset count_only =
     (let query = session_query (t_flags s);
          query = (case project_name of
                     Some pn \<Rightarrow>
                       if pn \<noteq> []
                       then join_q (t_projects s)
                              (\<lambda>f p. f_project_id f = Some (p_id p) \<and> p_name p = pn) query
                       else query
                   | None \<Rightarrow> query);
          query = (case from_date of
                     Some d \<Rightarrow> filter_q (\<lambda>f. d \<le> f_created_on f) query
                   | None \<Rightarrow> query);
          query = (case user of
                     Some u \<Rightarrow> if u \<noteq> [] then filter_q (\<lambda>f. f_user f = u) query else query
                   | None \<Rightarrow> query);
          query = (case state of
                     Some st \<Rightarrow> if st \<noteq> [] then filter_q (\<lambda>f. f_state f = st) query else query
                   | None \<Rightarrow> query);
          query = order_by_desc_q f_created_on query
      in if count_only then counted (count_q query)
         else
           (let query = (case offset of
                           Some k \<Rightarrow> if k \<noteq> 0 then offset_q k query else query
                         | None \<Rightarrow> query);
                query = (case limit of
                           Some n \<Rightarrow> if n \<noteq> 0 then limit_q n query else query
                         | None \<Rightarrow> query)
            in listed (all_q query)))"

text \<open>
  What the properties of the listings are stated with: the filter conditions in words, and the
  primary key of the project table.
\<close>

definition log_matches :: "string option \<Rightarrow> datetime option \<Rightarrow> user_arg \<Rightarrow> Log \<Rightarrow> bool" where
  "log_matches project_name from_date user l =
     ((given project_name \<longrightarrow> l_project l = project_name)
      \<and> (case from_date of None \<Rightarrow> True | Some d \<Rightarrow> d \<le> l_created_on l)
      \<and> (case user of
            NoUser \<Rightarrow> True
          | User u \<Rightarrow> u = [] \<or> l_user l = u
          | Users us \<Rightarrow> us = [] \<or> l_user l \<in> set us))"

definition flag_matches ::
  "Project list \<Rightarrow> string option \<Rightarrow> datetime option \<Rightarrow> string option \<Rightarrow> string option
     \<Rightarrow> ProjectFlag \<Rightarrow> bool"
where
  "flag_matches projects project_name from_date user state f =
     ((case project_name of
         None \<Rightarrow> True
       | Some pn \<Rightarrow>
           pn = [] \<or> (\<exists>p \<in> set projects. f_project_id f = Some (p_id p) \<and> p_name p = pn))
      \<and> (case from_date of None \<Rightarrow> True | Some d \<Rightarrow> d \<le> f_created_on f)
      \<and> (case user of None \<Rightarrow> True | Some u \<Rightarrow> u = [] \<or> f_user f = u)
      \<and> (case state of None \<Rightarrow> True | Some st \<Rightarrow> st = [] \<or> f_state f = st))"

definition newest_first :: "('a \<Rightarrow> datetime) \<Rightarrow> 'a list \<Rightarrow> bool" where
  "newest_first created xs = sorted_wrt (\<lambda>a b. created b \<le> created a) xs"

definition oldest_first :: "('a \<Rightarrow> datetime) \<Rightarrow> 'a list \<Rightarrow> bool" where
  "oldest_first created xs = sorted_wrt (\<lambda>a b. created a \<le> created b) xs"

definition primary_key :: "('a \<Rightarrow> int) \<Rightarrow> 'a list \<Rightarrow> bool" where
  "primary_key ident table = distinct (map ident table)"

section \<open>Version scheme resolution\<close>

text \<open>
  A backend or ecosystem plugin, with the attribute that \<open>get_version_class\<close> reads. The
  plugin registries of \<open>anitya.lib.plugins\<close> and the constant \<open>GLOBAL_DEFAULT\<close> of
  \<open>anitya.lib.versions\<close> are parameters: a registry is its \<open>get_plugin\<close>, which gives the
  plugin registered under a name or the error it raises.
\<close>

record plugin =
  default_version_scheme :: "string option"

definition get_version_class ::
  "(string \<Rightarrow> error + plugin) \<Rightarrow> (string \<Rightarrow> error + plugin) \<Rightarrow> (string \<Rightarrow> error + 'v)
     \<Rightarrow> string \<Rightarrow> Project \<Rightarrow> error + 'v"
where
  "get_version_class ECOSYSTEM_PLUGINS BACKEND_PLUGINS VERSION_PLUGINS DEFAULT_VERSION_SCHEME self =
     (case (if given (p_version_scheme self) then Inr (p_version_scheme self)
            else (case p_ecosystem_name self of
                    None \<Rightarrow> Inr (p_version_scheme self)
                  | Some en \<Rightarrow>
                      if en = [] then Inr (p_version_scheme self)
                      else (case ECOSYSTEM_PLUGINS en of
                              Inl e \<Rightarrow> Inl e
                            | Inr ecosystem \<Rightarrow> Inr (default_version_scheme ecosystem))))
      of
        Inl e \<Rightarrow> Inl e
      | Inr version_scheme \<Rightarrow>
          (case (if given version_scheme then Inr version_scheme
                 else (case p_backend self of
                         None \<Rightarrow> Inr version_scheme
                       | Some b \<Rightarrow>
                           if b = [] then Inr version_scheme
                           else (case BACKEND_PLUGINS b of
                                   Inl e \<Rightarrow> Inl e
                                 | Inr backend \<Rightarrow> Inr (default_version_scheme backend))))
           of
             Inl e \<Rightarrow> Inl e
           | Inr version_scheme \<Rightarrow>
               VERSION_PLUGINS
                 (case version_scheme of
                    None \<Rightarrow> DEFAULT_VERSION_SCHEME
                  | Some n \<Rightarrow> if n = [] then DEFAULT_VERSION_SCHEME else n)))"

text \<open>
  A level of the precedence gives no scheme when the project names no plugin at that
  level, or names a registered plugin that has no default scheme.
\<close>

definition no_default :: "(string \<Rightarrow> error + plugin) \<Rightarrow> string option \<Rightarrow> bool" where
  "no_default registry plugin_name =
     (case plugin_name of
        None \<Rightarrow> True
      | Some n \<Rightarrow>
          n = [] \<or> (case registry n of
                      Inl e \<Rightarrow> False
                    | Inr pl \<Rightarrow> \<not> given (default_version_scheme pl)))"

text \<open>
  Example registries: the ecosystem \<open>crates.io\<close> defaults to \<open>semver\<close>, the backend
  \<open>custom\<close> has no default and the backend \<open>PyPI\<close> defaults to \<open>pep440\<close>; a version
  scheme is represented by its name.
\<close>

definition example_ecosystems :: "string \<Rightarrow> error + plugin" where
  "example_ecosystems n =
     (if n = ''crates.io'' then Inr \<lparr>default_version_scheme = Some ''semver''\<rparr>
      else Inl (PluginError n))"

definition example_backends :: "string \<Rightarrow> error + plugin" where
  "example_backends n =
     (if n = ''custom'' then Inr \<lparr>default_version_scheme = None\<rparr>
      else if n = ''PyPI'' then Inr \<lparr>default_version_scheme = Some ''pep440''\<rparr>
      else Inl (PluginError n))"

definition example_versions :: "string \<Rightarrow> error + string" where
  "example_versions n =
     (if n = ''RPM'' \<or> n = ''semver'' \<or> n = ''pep440'' then Inr n else Inl (PluginError n))"

section \<open>Search and status classification\<close>

text \<open>
  Python's \<open>str.replace\<close>: every occurrence of \<open>old\<close>, found from left to right without
  overlap, becomes \<open>new\<close>; an empty \<open>old\<close> matches before every character and at the
  end.
\<close>

fun replace :: "string \<Rightarrow> string \<Rightarrow> string \<Rightarrow> string" where
  "replace old new [] = (if old = [] then new else [])"
| "replace old new (c # cs) =
     (if old = [] then new @ c # replace old new cs
      else if take (length old) (c # cs) = old
      then new @ replace old new (drop (length old) (c # cs))
      else c # replace old new cs)"

text \<open>
  The engine's \<open>lower\<close>, on ASCII letters, and its \<open>LIKE\<close>: \<open>%\<close> matches any run of
  characters and \<open>_\<close> any one character; after the escape character of the dialect, if it
  has one, the next character of the pattern stands for itself. SQLAlchemy's \<open>ilike\<close>
  compares the lower-cased value with the lower-cased pattern.

  A pattern that ends in the escape character, with no character after it to escape, is
  an error of the engine (PostgreSQL: "LIKE pattern must not end with escape character",
  raised when its matcher reaches that ending). \<open>rejected\<close> recognises these patterns,
  and every operation below that issues a statement with such a pattern fails with the
  engine's error instead of returning rows; \<open>like\<close> is the match of the patterns that
  the engine accepts, and its answer for a rejected pattern is never returned.
\<close>

fun rejected :: "char option \<Rightarrow> string \<Rightarrow> bool" where
  "rejected esc [] = False"
| "rejected esc [c] = (Some c = esc)"
| "rejected esc (c # d # p) = (if Some c = esc then rejected esc p else rejected esc (d # p))"

definition lower_char :: "char \<Rightarrow> char" where
  "lower_char c = (let n = (of_char c :: nat) in if 65 \<le> n \<and> n \<le> 90 then char_of (n + 32) else c)"

definition lower :: "string \<Rightarrow> string" where
  "lower s = map lower_char s"

fun like :: "char option \<Rightarrow> string \<Rightarrow> string \<Rightarrow> bool" where
  "like esc [] s = (s = [])"
| "like esc (c # p) [] = (Some c \<noteq> esc \<and> c = CHR ''%'' \<and> like esc p [])"
| "like esc (c # p) (x # xs) =
     (if Some c = esc then (case p of [] \<Rightarrow> False | e # p' \<Rightarrow> x = e \<and> like esc p' xs)
      else if c = CHR ''%'' then like esc p (x # xs) \<or> like esc (c # p) xs
      else if c = CHR ''_'' then like esc p xs
      else x = c \<and> like esc p xs)"

text \<open>
  Conditions on nullable columns have SQL's three truth values, \<open>None\<close> for unknown; a
  row passes a filter when every criterion holds.
\<close>

definition holds :: "bool option \<Rightarrow> bool" where
  "holds b = (b = Some True)"

definition is_null :: "'a option \<Rightarrow> bool option" where
  "is_null v = Some (v = None)"

definition isnot_null :: "'a option \<Rightarrow> bool option" where
  "isnot_null v = Some (v \<noteq> None)"

definition sql_eq :: "'a option \<Rightarrow> 'a \<Rightarrow> bool option" where
  "sql_eq v x = map_option (\<lambda>y. y = x) v"

definition sql_ne :: "'a option \<Rightarrow> 'a \<Rightarrow> bool option" where
  "sql_ne v x = map_option (\<lambda>y. y \<noteq> x) v"

definition sql_not :: "bool option \<Rightarrow> bool option" where
  "sql_not b = map_option Not b"

definition sql_like :: "char option \<Rightarrow> string option \<Rightarrow> string \<Rightarrow> bool option" where
  "sql_like esc v pattern = map_option (\<lambda>y. like esc pattern y) v"

definition ilike :: "char option \<Rightarrow> string option \<Rightarrow> string \<Rightarrow> bool option" where
  "ilike esc v pattern = sql_like esc (map_option lower v) (lower pattern)"

text \<open>
  Adding a table to the query gives the pairs of rows; selecting the first entity,
  \<open>distinct\<close> and \<open>union\<close> are as in SQL, keeping first occurrences. The source adds
  a table and selects an entity in queries without ORDER BY only, and the union is a new
  query without ORDER BY: the rows of these queries are taken as they stand.
\<close>

definition cross_q :: "'b list \<Rightarrow> 'a query \<Rightarrow> ('a \<times> 'b) query" where
  "cross_q other q =
     \<lparr>rows = List.product (rows q) other, q_scanned = List.product (rows q) other,
      q_order = (\<lambda>xs. xs), q_offset = q_offset q, q_limit = q_limit q\<rparr>"

definition entity_q :: "('a \<times> 'b) query \<Rightarrow> 'a query" where
  "entity_q q =
     \<lparr>rows = map fst (rows q), q_scanned = map fst (rows q), q_order = (\<lambda>xs. xs),
      q_offset = q_offset q, q_limit = q_limit q\<rparr>"

definition distinct_q :: "'a query \<Rightarrow> 'a query" where
  "distinct_q q = q\<lparr>rows := remdups (rows q), q_scanned := remdups (q_scanned q)\<rparr>"

definition union_q :: "'a query \<Rightarrow> 'a query \<Rightarrow> 'a query" where
  "union_q q1 q2 =
     \<lparr>rows = remdups (rows q1 @ rows q2), q_scanned = remdups (rows q1 @ rows q2),
      q_order = (\<lambda>xs. xs), q_offset = None, q_limit = None\<rparr>"

definition Distro_all ::
  "(string \<Rightarrow> int option) \<Rightarrow> session \<Rightarrow> pyval \<Rightarrow> bool \<Rightarrow> error + Distro listing" where
  "Distro_all to_int s page_arg count_only =
     (let query = order_by_q d_name (session_query (t_distros s));
          query = paginate_query to_int query page_arg
      in if count_only then counted (count_q query) else listed (all_q query))"

definition Distro_search ::
  "(string \<Rightarrow> int option) \<Rightarrow> char option \<Rightarrow> session \<Rightarrow> string \<Rightarrow> pyval \<Rightarrow> bool
     \<Rightarrow> error + Distro listing"
where
  "Distro_search to_int esc s pattern_arg page_arg count_only =
     (let pattern = (if CHR ''*'' \<in> set pattern_arg then replace ''*'' ''%'' pattern_arg
                     else pattern_arg);
          query = distinct_q
                    (order_by_q d_name
                      (filter_q (\<lambda>d. holds (sql_like esc (Some (lower (d_name d))) (lower pattern)))
                        (session_query (t_distros s))));
          query = paginate_query to_int query page_arg
      in if rejected esc (lower pattern) then Inl StorageError
         else if count_only then counted (count_q query) else listed (all_q query))"

definition Project_all ::
  "(string \<Rightarrow> int option) \<Rightarrow> session \<Rightarrow> pyval \<Rightarrow> bool \<Rightarrow> error + Project listing" where
  "Project_all to_int s page_arg count_only =
     (let query = order_by_q (\<lambda>p. lower (p_name p)) (session_query (t_projects s));
          query = paginate_query to_int query page_arg
      in if count_only then counted (count_q query) else listed (all_q query))"

text \<open>
  \<open>Project.updated\<close>. \<open>refused\<close> says that the statement holds a pattern match with
  a pattern that the engine rejects.
\<close>

definition wildcards :: "string \<Rightarrow> string" where
  "wildcards text =
     (if CHR ''*'' \<in> set text then replace ''*'' ''%'' text else ''%'' @ text @ ''%'')"

definition Project_updated ::
  "(string \<Rightarrow> int option) \<Rightarrow> char option \<Rightarrow> session \<Rightarrow> string \<Rightarrow> string option \<Rightarrow> string option
     \<Rightarrow> pyval \<Rightarrow> bool \<Rightarrow> error + Project listing"
where
  "Project_updated to_int esc s status name log page_arg count_only =
     (let query = order_by_q (\<lambda>p. lower (p_name p)) (session_query (t_projects s));
          query =
            (if status = ''updated''
             then filter_q (\<lambda>p. holds (isnot_null (p_logs p))
                              \<and> holds (sql_eq (p_logs p) ''Version retrieved correctly'')) query
             else if status = ''failed''
             then filter_q (\<lambda>p. holds (isnot_null (p_logs p))
                              \<and> holds (sql_ne (p_logs p) ''Version retrieved correctly'')
                              \<and> holds (sql_not (ilike esc (p_logs p) ''Something strange occured%'')))
                    query
             else if status = ''odd''
             then filter_q (\<lambda>p. holds (isnot_null (p_logs p))
                              \<and> holds (sql_ne (p_logs p) ''Version retrieved correctly'')
                              \<and> holds (ilike esc (p_logs p) ''Something strange occured%''))
                    query
             else if status = ''new''
             then filter_q (\<lambda>p. holds (is_null (p_logs p))) query
             else if status = ''never_updated''
             then filter_q (\<lambda>p. holds (isnot_null (p_logs p))
                              \<and> holds (sql_ne (p_logs p) ''Version retrieved correctly'')
                              \<and> holds (is_null (p_latest_version p))) query
             else query);
          query = (case name of
                     Some nm \<Rightarrow>
                       if nm \<noteq> []
                       then filter_q (\<lambda>p. holds (ilike esc (Some (p_name p)) (wildcards nm))) query
                       else query
                   | None \<Rightarrow> query);
          query = (case log of
                     Some lg \<Rightarrow>
                       if lg \<noteq> []
                       then filter_q (\<lambda>p. holds (ilike esc (p_logs p) (wildcards lg))) query
                       else query
                   | None \<Rightarrow> query);
          query = paginate_query to_int query page_arg;
          refused =
            ((status = ''failed'' \<or> status = ''odd'')
               \<and> rejected esc (lower ''Something strange occured%'')
             \<or> (case name of
                   Some nm \<Rightarrow> nm \<noteq> [] \<and> rejected esc (lower (wildcards nm))
                 | None \<Rightarrow> False)
             \<or> (case log of
                   Some lg \<Rightarrow> lg \<noteq> [] \<and> rejected esc (lower (wildcards lg))
                 | None \<Rightarrow> False))
      in if refused then Inl StorageError
         else if count_only then counted (count_q query) else listed (all_q query))"

text \<open>
  \<open>Project.search\<close>. The pattern after the translation is \<open>None\<close> when no pattern was
  given. Python's \<open>'\_'\<close> is a backslash followed by an underscore. \<open>refused\<close> says
  that the statement holds a pattern match with a pattern that the engine rejects.
\<close>

definition translate :: "string \<Rightarrow> string" where
  "translate pattern_arg =
     (let pattern = replace ''_'' [CHR 0x5C, CHR ''_''] pattern_arg
      in if CHR ''*'' \<in> set pattern then replace ''*'' ''%'' pattern else pattern)"

definition Project_search ::
  "(string \<Rightarrow> int option) \<Rightarrow> char option \<Rightarrow> session \<Rightarrow> string option \<Rightarrow> string option \<Rightarrow> pyval
     \<Rightarrow> bool \<Rightarrow> error + Project listing"
where
  "Project_search to_int esc s pattern_arg distro page_arg count_only =
     (let query1 = session_query (t_projects s);
          pattern = (if given pattern_arg then map_option translate pattern_arg else pattern_arg);
          query1 = (case pattern of
                      Some pat \<Rightarrow>
                        if pat \<noteq> []
                        then (if CHR ''%'' \<in> set pat
                              then filter_q (\<lambda>p. holds (ilike esc (Some (p_name p)) pat)) query1
                              else filter_q (\<lambda>p. p_name p = pat) query1)
                        else query1
                    | None \<Rightarrow> query1);
          query2 = filter_q (\<lambda>(p, k). holds (sql_eq (k_project_id k) (p_id p)))
                     (cross_q (t_packages s) (session_query (t_projects s)));
          query2 = (case pattern of
                      Some pat \<Rightarrow>
                        if pat \<noteq> []
                        then (if CHR ''%'' \<in> set pat
                              then filter_q (\<lambda>(p, k). holds (ilike esc (k_package_name k) pat)) query2
                              else filter_q (\<lambda>(p, k). holds (sql_eq (k_package_name k) pat)) query2)
                        else query2
                    | None \<Rightarrow> query2);
          query1 = (case distro of
                      Some d \<Rightarrow>
                        entity_q
                          (filter_q (\<lambda>(p, k). holds (sql_eq (map_option lower (k_distro k)) (lower d)))
                            (filter_q (\<lambda>(p, k). holds (sql_eq (k_project_id k) (p_id p)))
                              (cross_q (t_packages s) query1)))
                    | None \<Rightarrow> query1);
          query2 = (case distro of
                      Some d \<Rightarrow>
                        filter_q (\<lambda>(p, k). holds (sql_eq (map_option lower (k_distro k)) (lower d)))
                          query2
                    | None \<Rightarrow> query2);
          query = order_by_q p_name (union_q (distinct_q query1) (distinct_q (entity_q query2)));
          query = paginate_query to_int query page_arg;
          refused = (case pattern of
                       Some pat \<Rightarrow>
                         pat \<noteq> [] \<and> CHR ''%'' \<in> set pat \<and> rejected esc (lower pat)
                     | None \<Rightarrow> False)
      in if refused then Inl StorageError
         else if count_only then counted (count_q query) else listed (all_q query))"

text \<open>
  The buckets of \<open>Project.updated\<close> in words: the sentinel of a successful run, the prefix
  of an odd run compared without regard to case, and the condition of every status. A
  status that is none of the five selects every project.
\<close>

definition istarts_with :: "string \<Rightarrow> string \<Rightarrow> bool" where
  "istarts_with prefix text = (lower (take (length prefix) text) = lower prefix)"

definition in_bucket :: "string \<Rightarrow> Project \<Rightarrow> bool" where
  "in_bucket status p =
     (if status = ''updated'' then p_logs p = Some ''Version retrieved correctly''
      else if status = ''failed''
      then (case p_logs p of
              None \<Rightarrow> False
            | Some l \<Rightarrow> l \<noteq> ''Version retrieved correctly''
                \<and> \<not> istarts_with ''Something strange occured'' l)
      else if status = ''odd''
      then (case p_logs p of
              None \<Rightarrow> False
            | Some l \<Rightarrow> l \<noteq> ''Version retrieved correctly''
                \<and> istarts_with ''Something strange occured'' l)
      else if status = ''new'' then p_logs p = None
      else if status = ''never_updated''
      then (case p_logs p of
              None \<Rightarrow> False
            | Some l \<Rightarrow> l \<noteq> ''Version retrieved correctly'')
             \<and> p_latest_version p = None
      else True)"

text \<open>
  The translation of a search pattern in words, and the comparison that \<open>Project.search\<close>
  applies to a name with the translated pattern.
\<close>

definition star_to_percent :: "string \<Rightarrow> string" where
  "star_to_percent s = map (\<lambda>c. if c = CHR ''*'' then CHR ''%'' else c) s"

definition escape_underscores :: "string \<Rightarrow> string" where
  "escape_underscores s = concat (map (\<lambda>c. if c = CHR ''_'' then [CHR 0x5C, CHR ''_''] else [c]) s)"

definition matches :: "char option \<Rightarrow> string \<Rightarrow> string \<Rightarrow> bool" where
  "matches esc translated x =
     (if CHR ''%'' \<in> set translated then like esc (lower translated) (lower x)
      else x = translated)"

definition accepted :: "char option \<Rightarrow> string \<Rightarrow> bool" where
  "accepted esc translated = (\<not> rejected esc (lower translated))"

definition package_matches :: "char option \<Rightarrow> string \<Rightarrow> Project \<Rightarrow> Packages \<Rightarrow> bool" where
  "package_matches esc translated p k =
     (k_project_id k = Some (p_id p)
      \<and> (case k_package_name k of None \<Rightarrow> False | Some n \<Rightarrow> matches esc translated n))"

section \<open>The cross-dialect identity type\<close>

text \<open>
  Python's \<open>uuid.UUID\<close> is its 128-bit integer. \<open>"%.32x" % n\<close> writes an integer below
  \<open>2 ^ 128\<close> as exactly 32 lower-case hexadecimal digits; \<open>str\<close> of a UUID is these
  digits in groups of 8, 4, 4, 4 and 12 joined by hyphens. \<open>uuid.UUID(s)\<close> removes the
  prefixes \<open>urn:\<close> and \<open>uuid:\<close>, braces at both ends and hyphens, requires 32 characters
  and reads them as hexadecimal digits of either case.
\<close>

type_synonym uuid = "128 word"

definition hex_digit :: "nat \<Rightarrow> char" where
  "hex_digit d = ''0123456789abcdef'' ! (d mod 16)"

fun hex_digits :: "nat \<Rightarrow> nat \<Rightarrow> string" where
  "hex_digits 0 n = []"
| "hex_digits (Suc k) n = hex_digits k (n div 16) @ [hex_digit (n mod 16)]"

definition hex32 :: "uuid \<Rightarrow> string" where
  "hex32 u = hex_digits 32 (unat u)"

definition UUID_str :: "uuid \<Rightarrow> string" where
  "UUID_str u =
     (let hex = hex32 u
      in take 8 hex @ ''-'' @ take 4 (drop 8 hex) @ ''-'' @ take 4 (drop 12 hex) @ ''-'' @
         take 4 (drop 16 hex) @ ''-'' @ drop 20 hex)"

definition hex_value :: "char \<Rightarrow> nat option" where
  "hex_value c =
     (let n = (of_char c :: nat)
      in if 48 \<le> n \<and> n \<le> 57 then Some (n - 48)
         else if 97 \<le> n \<and> n \<le> 102 then Some (n - 87)
         else if 65 \<le> n \<and> n \<le> 70 then Some (n - 55)
         else None)"

fun hex_number :: "nat \<Rightarrow> string \<Rightarrow> nat option" where
  "hex_number acc [] = Some acc"
| "hex_number acc (c # cs) =
     (case hex_value c of None \<Rightarrow> None | Some d \<Rightarrow> hex_number (16 * acc + d) cs)"

definition brace :: "char \<Rightarrow> bool" where
  "brace c = (c = CHR ''{'' \<or> c = CHR ''}'')"

definition strip_braces :: "string \<Rightarrow> string" where
  "strip_braces s = rev (dropWhile brace (rev (dropWhile brace s)))"

definition UUID :: "string \<Rightarrow> error + uuid" where
  "UUID s =
     (let hex = replace ''uuid:'' [] (replace ''urn:'' [] s);
          hex = replace ''-'' [] (strip_braces hex)
      in if length hex \<noteq> 32 then Inl (ValueError ''badly formed hexadecimal UUID string'')
         else (case hex_number 0 hex of
                 None \<Rightarrow> Inl (ValueError ''invalid literal for int() with base 16'')
               | Some n \<Rightarrow> Inr (word_of_nat n)))"

text \<open>
  \<open>GUID\<close>. The value to bind is \<open>None\<close>, a \<open>uuid.UUID\<close> or a string; the dialect is
  given by its name.
\<close>

datatype guid_value = UuidValue uuid | StrValue string

definition process_bind_param :: "guid_value option \<Rightarrow> string \<Rightarrow> error + string option" where
  "process_bind_param val dialect_name =
     (case val of
        None \<Rightarrow> Inr None
      | Some v \<Rightarrow>
          if dialect_name = ''postgresql''
          then Inr (Some (case v of UuidValue u \<Rightarrow> UUID_str u | StrValue s \<Rightarrow> s))
          else (case v of
                  StrValue s \<Rightarrow>
                    (case UUID s of Inl e \<Rightarrow> Inl e | Inr u \<Rightarrow> Inr (Some (hex32 u)))
                | UuidValue u \<Rightarrow> Inr (Some (hex32 u))))"

definition process_result_value :: "string option \<Rightarrow> string \<Rightarrow> error + uuid option" where
  "process_result_value val dialect_name =
     (case val of
        None \<Rightarrow> Inr None
      | Some s \<Rightarrow> (case UUID s of Inl e \<Rightarrow> Inl e | Inr u \<Rightarrow> Inr (Some u)))"

section \<open>Example data\<close>

text \<open>
  Rows and sessions at which the theorems below are instantiated.
\<close>

abbreviation flag_old :: ProjectFlag where
  "flag_old \<equiv> \<lparr>f_id = 1, f_project_id = Some 1, f_reason = ''dead link'', f_user = ''ann'',
                 f_state = ''closed'', f_created_on = 100\<rparr>"

abbreviation flag_new :: ProjectFlag where
  "flag_new \<equiv> \<lparr>f_id = 2, f_project_id = Some 1, f_reason = ''wrong url'', f_user = ''bob'',
                 f_state = ''open'', f_created_on = 200\<rparr>"

abbreviation log_old :: Log where
  "log_old \<equiv> \<lparr>l_id = 1, l_user = ''ann'', l_project = Some ''foo'', l_distro = None,
                l_description = ''added'', l_created_on = 100\<rparr>"

abbreviation log_new :: Log where
  "log_new \<equiv> \<lparr>l_id = 2, l_user = ''bob'', l_project = Some ''foo'', l_distro = None,
                l_description = ''edited'', l_created_on = 200\<rparr>"

abbreviation project_foo :: Project where
  "project_foo \<equiv> \<lparr>p_id = 1, p_name = ''foo'', p_homepage = ''http://foo.org'',
                    p_backend = Some ''custom'', p_ecosystem_name = None,
                    p_version_scheme = None, p_latest_version = None,
                    p_logs = Some ''No upstream version found''\<rparr>"

abbreviation flag_session :: session where
  "flag_session \<equiv> \<lparr>t_logs = [log_old, log_new], t_distros = [], t_packages = [],
                     t_projects = [project_foo], t_flags = [flag_old, flag_new]\<rparr>"

abbreviation project_shout :: Project where
  "project_shout \<equiv> \<lparr>p_id = 2, p_name = ''Bar'', p_homepage = ''http://bar.org'',
                      p_backend = Some ''custom'', p_ecosystem_name = None,
                      p_version_scheme = None, p_latest_version = Some ''1.0'',
                      p_logs = Some ''SOMETHING STRANGE OCCURED: two versions''\<rparr>"

abbreviation status_session :: session where
  "status_session \<equiv> \<lparr>t_logs = [], t_distros = [], t_packages = [],
                       t_projects = [project_foo, project_shout], t_flags = []\<rparr>"

abbreviation distro_fedora :: Distro where
  "distro_fedora \<equiv> \<lparr>d_name = ''Fedora''\<rparr>"

abbreviation package_foo :: Packages where
  "package_foo \<equiv> \<lparr>k_id = 1, k_distro = Some ''Fedora'', k_project_id = Some 2,
                    k_package_name = Some ''foo''\<rparr>"

abbreviation search_session :: session where
  "search_session \<equiv> \<lparr>t_logs = [], t_distros = [distro_fedora], t_packages = [package_foo],
                       t_projects = [project_foo, project_shout], t_flags = []\<rparr>"

section \<open>Properties of the pagination primitive\<close>

lemma rows_apply_order: "rows (apply_order ob q) = ordered ob q"
  by (simp add: apply_order_def ordered_def order_by_q_def order_by_none_q_def
      split: option.splits)

lemma apply_order_slice:
  "q_offset (apply_order ob q) = q_offset q" "q_limit (apply_order ob q) = q_limit q"
  by (simp_all add: apply_order_def order_by_q_def order_by_none_q_def split: option.splits)

lemma paginate_ok:
  assumes "1 \<le> pg" "1 \<le> ipp" "unsliced self"
  shows "paginate self (Some pg) (Some ipp) ob =
     Inr \<lparr>items = take (nat ipp) (drop (nat (ipp * (pg - 1))) (ordered ob self)),
          page = pg, items_per_page = ipp, total_items = int (length (ordered ob self))\<rparr>"
proof -
  have nn: "\<not> ipp * (pg - 1) < 0" using assms by (simp add: mult_less_0_iff)
  show ?thesis
    using assms nn
    by (simp add: paginate_def unsliced_def count_q_def all_q_def negative_def sliced_def
        offset_q_def limit_q_def rows_apply_order apply_order_slice)
qed

lemma concat_chunks:
  "concat (map (\<lambda>k. take m (drop (m * k) xs)) [0..<n]) = take (m * n) xs"
proof (induction n)
  case 0
  show ?case by simp
next
  case (Suc n)
  have "take (m * Suc n) xs = take (m * n + m) xs" by (simp add: add.commute)
  also have "\<dots> = take (m * n) xs @ take m (drop (m * n) xs)"
    by (rule take_add)
  finally have "take (m * Suc n) xs = take (m * n) xs @ take m (drop (m * n) xs)" .
  with Suc show ?case by simp
qed

lemma page_items_eq:
  assumes "1 \<le> ipp" "unsliced self"
  shows "page_items self ob ipp (Suc k) =
           take (nat ipp) (drop (nat ipp * k) (ordered ob self))"
proof -
  have "nat (ipp * int k) = nat ipp * k" using assms by (simp add: nat_mult_distrib)
  then show ?thesis using assms by (simp add: page_items_def paginate_ok)
qed

lemma all_pages:
  assumes "1 \<le> ipp" "unsliced self" "length (ordered ob self) \<le> nat ipp * n"
  shows "concat (map (page_items self ob ipp) [1..<Suc n]) = ordered ob self"
proof -
  have "map (page_items self ob ipp) [1..<Suc n] =
          map (\<lambda>k. page_items self ob ipp (Suc k)) [0..<n]"
    unfolding One_nat_def map_Suc_upt[symmetric] by (simp add: o_def del: upt_Suc)
  also have "\<dots> =
      map (\<lambda>k. take (nat ipp) (drop (nat ipp * k) (ordered ob self))) [0..<n]"
    using assms by (simp add: page_items_eq)
  finally show ?thesis using assms(3) by (simp add: concat_chunks)
qed

lemma mset_ordered: "rearranges (q_order self) \<Longrightarrow> mset (ordered ob self) = mset (q_scanned self)"
  by (simp add: ordered_def rearranges_def split: option.splits)

lemma ordered_session_query [simp]:
  "ordered None (session_query t) = t"
  "ordered (Some key) (session_query t) = sort_key key t"
  by (simp_all add: ordered_def session_query_def)

lemma ordered_order_by:
  "ordered None (order_by_q key1 (session_query t)) = t"
  "ordered (Some key2) (order_by_q key1 (session_query t)) = sort_key key1 (sort_key key2 t)"
  by (simp_all add: ordered_def session_query_def order_by_q_def)


text \<open>
  C4 (amended). For every page and page size of at least 1, \<open>paginate\<close> on a query that
  has not been sliced returns, of the rows in the order of the query it builds, those from
  offset \<open>items_per_page * (page - 1)\<close>, at most \<open>items_per_page\<close> of them, with the
  page number, the page size and the count of all rows. With ordering criteria given this
  order is the receiver's ORDER BY followed by the criteria, which on a receiver without
  ORDER BY is the order of the criteria; with the criteria omitted it is the order of the
  scan, any ORDER BY of the receiver removed. The items of pages \<open>1\<close> to \<open>n\<close>, for any
  \<open>n\<close> pages that reach the end, concatenated in order are the whole result in that
  order, which holds every row of the receiver exactly once when the receiver's ORDER BY
  rearranges its rows.
\<close>

theorem paginate_slices_and_covers:
  assumes "1 \<le> pg" and "1 \<le> ipp" and "unsliced self"
    and "length (ordered ob self) \<le> nat ipp * n"
  shows "paginate self (Some pg) (Some ipp) ob =
           Inr \<lparr>items = take (nat ipp) (drop (nat (ipp * (pg - 1))) (ordered ob self)),
                page = pg, items_per_page = ipp, total_items = int (length (ordered ob self))\<rparr>
         \<and> concat (map (page_items self ob ipp) [1..<Suc n]) = ordered ob self
         \<and> (rearranges (q_order self) \<longrightarrow>
               mset (concat (map (page_items self ob ipp) [1..<Suc n])) = mset (q_scanned self))
         \<and> (\<forall>key t. ob = Some key \<and> self = session_query t \<longrightarrow>
               ordered ob self = sort_key key t)
         \<and> (\<forall>t. ob = None \<and> self = session_query t \<longrightarrow> ordered ob self = t)
         \<and> (\<forall>key (earlier :: 'a \<Rightarrow> int) t.
               ob = Some key \<and> self = order_by_q earlier (session_query t) \<longrightarrow>
               ordered ob self = sort_key earlier (sort_key key t))
         \<and> (\<forall>(earlier :: 'a \<Rightarrow> int) t.
               ob = None \<and> self = order_by_q earlier (session_query t) \<longrightarrow>
               ordered ob self = t)"
proof -
  have whole: "concat (map (page_items self ob ipp) [1..<Suc n]) = ordered ob self"
    using assms(2-4) by (rule all_pages)
  have once: "rearranges (q_order self) \<longrightarrow>
      mset (concat (map (page_items self ob ipp) [1..<Suc n])) = mset (q_scanned self)"
    by (simp only: whole) (simp add: mset_ordered)
  have keyed: "\<forall>key t. ob = Some key \<and> self = session_query t \<longrightarrow>
      ordered ob self = sort_key key t"
    by simp
  have scanned: "\<forall>t. ob = None \<and> self = session_query t \<longrightarrow> ordered ob self = t"
    by simp
  have added: "\<forall>key (earlier :: 'a \<Rightarrow> int) t.
      ob = Some key \<and> self = order_by_q earlier (session_query t) \<longrightarrow>
      ordered ob self = sort_key earlier (sort_key key t)"
    by (simp add: ordered_order_by)
  have removed: "\<forall>(earlier :: 'a \<Rightarrow> int) t.
      ob = None \<and> self = order_by_q earlier (session_query t) \<longrightarrow> ordered ob self = t"
    by (simp add: ordered_order_by)
  from paginate_ok [OF assms(1-3)] whole once keyed scanned added removed
  show ?thesis by blast
qed

theorem paginate_slices_and_covers_witness:
  "paginate (session_query [30, 10, 20, 50, 40 :: int]) (Some 2) (Some 2) (Some (\<lambda>x. x)) =
     Inr \<lparr>items = [30, 40], page = 2, items_per_page = 2, total_items = 5\<rparr>
   \<and> concat (map (page_items (session_query [30, 10, 20, 50, 40 :: int]) (Some (\<lambda>x. x)) 2)
         [1..<Suc 3]) = [10, 20, 30, 40, 50]
   \<and> paginate (order_by_q fst (session_query [(2, 1), (1, 2 :: int)])) (Some 1) (Some 5)
         (Some snd) =
       Inr \<lparr>items = [(1 :: int, 2), (2, 1)], page = 1, items_per_page = 5, total_items = 2\<rparr>"
proof -
  have 1: "paginate (session_query [30, 10, 20, 50, 40 :: int]) (Some 2) (Some 2)
      (Some (\<lambda>x. x)) =
     Inr \<lparr>items = [30, 40], page = 2, items_per_page = 2, total_items = 5\<rparr>
   \<and> concat (map (page_items (session_query [30, 10, 20, 50, 40 :: int]) (Some (\<lambda>x. x)) 2)
         [1..<Suc 3]) = [10, 20, 30, 40, 50]"
    using paginate_slices_and_covers
      [of 2 2 "session_query [30, 10, 20, 50, 40 :: int]" "Some (\<lambda>x. x)" 3]
    by (simp add: unsliced_def session_query_def ordered_def)
  have 3: "paginate (order_by_q fst (session_query [(2, 1), (1, 2 :: int)])) (Some 1) (Some 5)
         (Some snd) =
       Inr \<lparr>items = [(1 :: int, 2), (2, 1)], page = 1, items_per_page = 5, total_items = 2\<rparr>"
    using paginate_slices_and_covers
      [of 1 5 "order_by_q fst (session_query [(2 :: int, 1), (1, 2 :: int)])" "Some snd" 1]
    by (simp add: unsliced_def session_query_def ordered_def order_by_q_def)
  from 1 3 show ?thesis by blast
qed

text \<open>
  On the query of the rows 3, 1, 2 ordered by value, whose result is 1, 2, 3, \<open>paginate\<close>
  without ordering criteria returns the page 3, 1, 2: the ORDER BY of the receiver is
  removed.
\<close>

theorem paginate_unordered_counterexample:
  "all_q (order_by_q (\<lambda>x. x) (session_query [3, 1, 2 :: int])) = Inr [1, 2, 3]
   \<and> paginate (order_by_q (\<lambda>x. x) (session_query [3, 1, 2 :: int])) (Some 1) (Some 5)
         (None :: (int \<Rightarrow> int) option) =
       Inr \<lparr>items = [3, 1, 2], page = 1, items_per_page = 5, total_items = 3\<rparr>"
  by (simp add: paginate_def apply_order_def order_by_none_q_def order_by_q_def session_query_def
      count_q_def all_q_def negative_def sliced_def offset_q_def limit_q_def)



section \<open>Properties of the secondary pagination mode\<close>

lemma paginate_query_int:
  "n \<noteq> 0 \<Longrightarrow> paginate_query to_int q (PInt n) = limit_q 50 (offset_q ((n - 1) * 50) q)"
  by (simp add: paginate_query_def truthy_def)

lemma paginate_query_str:
  "s \<noteq> [] \<Longrightarrow> to_int s = Some n \<Longrightarrow> n \<noteq> 0 \<Longrightarrow>
     paginate_query to_int q (PStr s) = limit_q 50 (offset_q ((n - 1) * 50) q)"
  by (simp add: paginate_query_def truthy_def)

lemma paginate_query_non_numeric:
  "to_int s = None \<Longrightarrow> paginate_query to_int q (PStr s) = q"
  by (simp add: paginate_query_def truthy_def)

lemma paginate_query_zero:
  "paginate_query to_int q (PInt 0) = q"
  "to_int s = Some 0 \<Longrightarrow> paginate_query to_int q (PStr s) = q"
  "paginate_query to_int q PNone = q"
  by (simp_all add: paginate_query_def truthy_def)

lemma all_unsliced: "unsliced q \<Longrightarrow> all_q q = Inr (rows q)"
  by (simp add: unsliced_def all_q_def negative_def sliced_def)

lemma count_unsliced: "unsliced q \<Longrightarrow> count_q q = Inr (int (length (rows q)))"
  by (simp add: count_q_def all_unsliced)

lemma all_slice:
  "0 \<le> k \<Longrightarrow> 0 \<le> n \<Longrightarrow>
     all_q (limit_q n (offset_q k q)) = Inr (take (nat n) (drop (nat k) (rows q)))"
  by (simp add: all_q_def negative_def sliced_def limit_q_def offset_q_def)

text \<open>
  C7 (amended). Given a page that is, or that \<open>int()\<close> reads as, an integer other than
  zero, \<open>_paginate_query\<close> sets offset \<open>(page - 1) * 50\<close> and limit 50 on the query; a
  string that \<open>int()\<close> rejects, and \<open>None\<close>, leave the query as it is. The result is a
  query, not a page with a total: evaluating or counting it for a page of at least 1 gives
  the slice of at most 50 rows and the length of that slice.
\<close>

theorem paginate_query_slices:
  "(\<forall>n. (pv = PInt n \<or> (\<exists>s. pv = PStr s \<and> s \<noteq> [] \<and> to_int s = Some n)) \<and> n \<noteq> 0 \<longrightarrow>
        paginate_query to_int q pv = limit_q 50 (offset_q ((n - 1) * 50) q))
   \<and> (\<forall>s. pv = PStr s \<and> to_int s = None \<longrightarrow> paginate_query to_int q pv = q)
   \<and> (pv = PNone \<longrightarrow> paginate_query to_int q pv = q)
   \<and> (\<forall>n. 1 \<le> n \<longrightarrow>
        all_q (paginate_query to_int q (PInt n)) =
          Inr (take 50 (drop (nat ((n - 1) * 50)) (rows q)))
        \<and> count_q (paginate_query to_int q (PInt n)) =
          Inr (int (length (take 50 (drop (nat ((n - 1) * 50)) (rows q))))))"
  by (auto simp add: paginate_query_int paginate_query_str paginate_query_non_numeric
      paginate_query_zero all_slice count_q_def)

theorem paginate_query_slices_witness:
  "paginate_query decimal (session_query [1, 2, 3 :: int]) (PStr ''2'') =
     limit_q 50 (offset_q 50 (session_query [1, 2, 3]))
   \<and> paginate_query decimal (session_query [1, 2, 3 :: int]) (PStr ''two'') =
        session_query [1, 2, 3]
   \<and> count_q (paginate_query decimal (session_query [1, 2, 3 :: int]) (PInt 1)) = Inr 3"
  using paginate_query_slices [of "PStr ''2''" decimal "session_query [1, 2, 3 :: int]"]
    paginate_query_slices [of "PStr ''two''" decimal "session_query [1, 2, 3 :: int]"]
  by (simp add: decimal_def digit_of_def session_query_def limit_q_def offset_q_def)

text \<open>
  The page \<open>''0''\<close> is read as the integer 0 and the query is returned without offset
  and limit.
\<close>

theorem paginate_query_zero_page_counterexample:
  "decimal ''0'' = Some 0
   \<and> paginate_query decimal (session_query [1, 2, 3 :: int]) (PStr ''0'') =
        session_query [1, 2, 3]
   \<and> paginate_query decimal (session_query [1, 2, 3 :: int]) (PStr ''0'') \<noteq>
        limit_q 50 (offset_q ((0 - 1) * 50) (session_query [1, 2, 3]))"
  by (simp add: decimal_def digit_of_def paginate_query_def truthy_def session_query_def
      limit_q_def offset_q_def)

text \<open>
  C10. A page equal to 0, or a string read as 0, leaves the query without offset and limit:
  \<open>_paginate_query\<close> returns the whole result and raises nothing, whereas \<open>paginate\<close>
  rejects page 0 with its \<open>ValueError\<close>.
\<close>

theorem paginate_query_page_zero_unsliced:
  "paginate_query to_int q (PInt 0) = q
   \<and> (to_int s = Some 0 \<longrightarrow> paginate_query to_int q (PStr s) = q)
   \<and> (unsliced q \<longrightarrow> all_q (paginate_query to_int q (PInt 0)) = Inr (rows q))
   \<and> (\<exists>msg. paginate q (Some 0) ia ob = Inl (ValueError msg))"
  by (simp add: paginate_query_zero all_unsliced paginate_def)

theorem paginate_query_page_zero_unsliced_witness:
  "paginate_query decimal (session_query [1, 2, 3 :: int]) (PStr ''00'') =
     session_query [1, 2, 3]
   \<and> all_q (paginate_query decimal (session_query [1, 2, 3 :: int]) (PInt 0)) = Inr [1, 2, 3]"
  using paginate_query_page_zero_unsliced
    [of decimal "session_query [1, 2, 3 :: int]" "''00''" None "Some (\<lambda>x. x)"]
  by (simp add: decimal_def digit_of_def session_query_def unsliced_def all_q_def
      negative_def sliced_def)

section \<open>Properties of the log and flag listings\<close>

lemma rows_simps:
  "rows (session_query t) = t"
  "rows (filter_q P q) = filter P (rows q)"
  "rows (order_by_desc_q k q) = q_order q (rev (sort_key k (rev (q_scanned q))))"
  "rows (order_by_q k q) = q_order q (sort_key k (q_scanned q))"
  "rows (join_q other on q) = concat (map (\<lambda>r. map (\<lambda>_. r) (filter (on r) other)) (rows q))"
  "q_scanned (session_query t) = t"
  "q_scanned (filter_q P q) = filter P (q_scanned q)"
  "q_scanned (order_by_desc_q k q) = q_scanned q"
  "q_scanned (order_by_q k q) = q_scanned q"
  "q_scanned (join_q other on q) =
     concat (map (\<lambda>r. map (\<lambda>_. r) (filter (on r) other)) (q_scanned q))"
  "q_order (session_query t) = (\<lambda>xs. xs)"
  "q_order (filter_q P q) = q_order q"
  "q_order (order_by_desc_q k q) = (\<lambda>xs. q_order q (rev (sort_key k (rev xs))))"
  "q_order (order_by_q k q) = (\<lambda>xs. q_order q (sort_key k xs))"
  "q_order (join_q other on q) = q_order q"
  by (simp_all add: session_query_def filter_q_def order_by_desc_q_def order_by_q_def join_q_def)

lemma unsliced_simps:
  "unsliced (session_query t)"
  "unsliced (filter_q P q) = unsliced q"
  "unsliced (order_by_desc_q k q) = unsliced q"
  "unsliced (order_by_q k q) = unsliced q"
  "unsliced (join_q other on q) = unsliced q"
  by (simp_all add: session_query_def filter_q_def order_by_desc_q_def order_by_q_def join_q_def
      unsliced_def)

lemma all_limit_offset:
  "unsliced q \<Longrightarrow> 0 \<le> k \<Longrightarrow> 0 \<le> n \<Longrightarrow>
     all_q (limit_q n (offset_q k q)) = Inr (take (nat n) (drop (nat k) (rows q)))"
  "unsliced q \<Longrightarrow> 0 \<le> n \<Longrightarrow> all_q (limit_q n q) = Inr (take (nat n) (rows q))"
  by (simp_all add: all_q_def negative_def sliced_def limit_q_def offset_q_def unsliced_def)

lemma Log_search_count:
  "Log_search s pn fd u limit offset True =
     Inr (Count (int (length (filter (log_matches pn fd u) (t_logs s)))))"
  by (cases u)
    (auto simp add: Log_search_def Let_def counted_def count_unsliced unsliced_simps rows_simps
      log_matches_def given_def split: option.splits intro!: arg_cong[where f=length] filter_cong)

text \<open>
  With the primary key of the joined table, the join keeps a row at most once.
\<close>

lemma at_most_one:
  "distinct (map k ps) \<Longrightarrow>
     map (\<lambda>_. f) (filter (\<lambda>p. i = Some (k p) \<and> Q p) ps) =
       (if \<exists>p \<in> set ps. i = Some (k p) \<and> Q p then [f] else [])"
  by (induction ps) (auto simp add: image_iff)

lemma join_primary_key:
  "primary_key k ps \<Longrightarrow>
     concat (map (\<lambda>r. map (\<lambda>_. r) (filter (\<lambda>p. fk r = Some (k p) \<and> Q p) ps)) rs) =
       filter (\<lambda>r. \<exists>p \<in> set ps. fk r = Some (k p) \<and> Q p) rs"
  unfolding primary_key_def by (induction rs) (simp_all add: at_most_one)

lemma flag_chain:
  assumes "primary_key p_id (t_projects s)"
  shows "(let query = session_query (t_flags s);
          query = (case pn of
                     Some pn \<Rightarrow>
                       if pn \<noteq> []
                       then join_q (t_projects s)
                              (\<lambda>f p. f_project_id f = Some (p_id p) \<and> p_name p = pn) query
                       else query
                   | None \<Rightarrow> query);
          query = (case fd of
                     Some d \<Rightarrow> filter_q (\<lambda>f. d \<le> f_created_on f) query
                   | None \<Rightarrow> query);
          query = (case u of
                     Some u \<Rightarrow> if u \<noteq> [] then filter_q (\<lambda>f. f_user f = u) query else query
                   | None \<Rightarrow> query);
          query = (case st of
                     Some st \<Rightarrow> if st \<noteq> [] then filter_q (\<lambda>f. f_state f = st) query else query
                   | None \<Rightarrow> query);
          query = order_by_desc_q f_created_on query
      in F query) =
     F \<lparr>rows = rev (sort_key f_created_on
                (rev (filter (flag_matches (t_projects s) pn fd u st) (t_flags s)))),
        q_scanned = filter (flag_matches (t_projects s) pn fd u st) (t_flags s),
        q_order = (\<lambda>xs. rev (sort_key f_created_on (rev xs))),
        q_offset = None, q_limit = None\<rparr>"
  using assms
  by (simp add: Let_def session_query_def filter_q_def order_by_desc_q_def join_q_def
      flag_matches_def [abs_def] join_primary_key split: option.splits)

lemma ProjectFlag_search_count:
  "primary_key p_id (t_projects s) \<Longrightarrow>
   ProjectFlag_search s pn fd u st limit offset True =
     Inr (Count (int (length (filter (flag_matches (t_projects s) pn fd u st) (t_flags s)))))"
  unfolding ProjectFlag_search_def
  by (simp only: flag_chain) (simp add: counted_def count_unsliced unsliced_def)

lemma ProjectFlag_search_rows:
  "primary_key p_id (t_projects s) \<Longrightarrow>
   ProjectFlag_search s pn fd u st None None False =
     Inr (Rows (rev (sort_key f_created_on
       (rev (filter (flag_matches (t_projects s) pn fd u st) (t_flags s))))))"
  unfolding ProjectFlag_search_def
  by (simp only: flag_chain) (simp add: listed_def all_unsliced unsliced_def)

lemma ProjectFlag_search_slice:
  "primary_key p_id (t_projects s) \<Longrightarrow> 0 \<le> k \<Longrightarrow> 0 < n \<Longrightarrow>
   ProjectFlag_search s pn fd u st (Some n) (Some k) False =
     Inr (Rows (take (nat n) (drop (nat k)
       (rev (sort_key f_created_on
          (rev (filter (flag_matches (t_projects s) pn fd u st) (t_flags s))))))))"
  unfolding ProjectFlag_search_def
  by (simp only: flag_chain) (simp add: listed_def all_limit_offset unsliced_def)

lemma oldest_first_asc: "oldest_first k (sort_key k xs)"
proof -
  have "sorted (map k (sort_key k xs))" by (rule sorted_sort_key)
  then show ?thesis by (simp only: oldest_first_def sorted_map)
qed

lemma newest_first_desc: "newest_first k (rev (sort_key k xs))"
  using oldest_first_asc [of k xs]
  by (simp only: newest_first_def oldest_first_def sorted_wrt_rev)

lemma ProjectFlag_all_rows:
  "ProjectFlag_all s pv c = Inr (Rows (sort_key f_created_on (t_flags s)))"
  by (simp add: ProjectFlag_all_def listed_def all_unsliced unsliced_simps rows_simps)

text \<open>
  C8 (amended). With \<open>id\<close> the primary key of the projects, \<open>ProjectFlag.search\<close> returns
  the flags that match the filters on project name, creation-date lower bound, user and
  state, newest first; in count mode it returns their number; with a limit above 0 and an
  offset of at least 0 it returns that slice of the ordered flags. \<open>ProjectFlag.all\<close>
  returns every flag, ordered oldest first.
\<close>

theorem flag_listing:
  assumes "primary_key p_id (t_projects s)"
  shows "(\<exists>xs. ProjectFlag_search s pn fd u st None None False = Inr (Rows xs)
            \<and> set xs = {f \<in> set (t_flags s). flag_matches (t_projects s) pn fd u st f}
            \<and> length xs = length (filter (flag_matches (t_projects s) pn fd u st) (t_flags s))
            \<and> newest_first f_created_on xs
            \<and> ProjectFlag_search s pn fd u st limit offset True = Inr (Count (int (length xs)))
            \<and> (\<forall>k n. 0 \<le> k \<and> 0 < n \<longrightarrow>
                  ProjectFlag_search s pn fd u st (Some n) (Some k) False =
                    Inr (Rows (take (nat n) (drop (nat k) xs)))))
         \<and> (\<exists>ys. ProjectFlag_all s PNone False = Inr (Rows ys)
               \<and> mset ys = mset (t_flags s) \<and> oldest_first f_created_on ys)"
proof -
  let ?xs = "rev (sort_key f_created_on
                (rev (filter (flag_matches (t_projects s) pn fd u st) (t_flags s))))"
  have 1: "ProjectFlag_search s pn fd u st None None False = Inr (Rows ?xs)"
    using assms by (rule ProjectFlag_search_rows)
  have 2: "set ?xs = {f \<in> set (t_flags s). flag_matches (t_projects s) pn fd u st f}"
    by auto
  have 3: "length ?xs = length (filter (flag_matches (t_projects s) pn fd u st) (t_flags s))"
    by simp
  have 4: "newest_first f_created_on ?xs" by (rule newest_first_desc)
  have 5: "ProjectFlag_search s pn fd u st limit offset True = Inr (Count (int (length ?xs)))"
    using assms by (simp add: ProjectFlag_search_count)
  have 6: "\<forall>k n. 0 \<le> k \<and> 0 < n \<longrightarrow>
             ProjectFlag_search s pn fd u st (Some n) (Some k) False =
               Inr (Rows (take (nat n) (drop (nat k) ?xs)))"
    using assms by (simp add: ProjectFlag_search_slice)
  have 7: "ProjectFlag_all s PNone False = Inr (Rows (sort_key f_created_on (t_flags s)))"
    by (rule ProjectFlag_all_rows)
  have 8: "mset (sort_key f_created_on (t_flags s)) = mset (t_flags s)" by simp
  have 9: "oldest_first f_created_on (sort_key f_created_on (t_flags s))"
    by (rule oldest_first_asc)
  from 1 2 3 4 5 6 have A:
    "\<exists>xs. ProjectFlag_search s pn fd u st None None False = Inr (Rows xs)
       \<and> set xs = {f \<in> set (t_flags s). flag_matches (t_projects s) pn fd u st f}
       \<and> length xs = length (filter (flag_matches (t_projects s) pn fd u st) (t_flags s))
       \<and> newest_first f_created_on xs
       \<and> ProjectFlag_search s pn fd u st limit offset True = Inr (Count (int (length xs)))
       \<and> (\<forall>k n. 0 \<le> k \<and> 0 < n \<longrightarrow>
             ProjectFlag_search s pn fd u st (Some n) (Some k) False =
               Inr (Rows (take (nat n) (drop (nat k) xs))))"
    by blast
  from 7 8 9 have B:
    "\<exists>ys. ProjectFlag_all s PNone False = Inr (Rows ys)
       \<and> mset ys = mset (t_flags s) \<and> oldest_first f_created_on ys"
    by blast
  from A B show ?thesis by blast
qed

theorem flag_listing_witness:
  "primary_key p_id (t_projects flag_session)
   \<and> ProjectFlag_search flag_session (Some ''foo'') (Some 50) None None None None False =
       Inr (Rows [flag_new, flag_old])
   \<and> ProjectFlag_search flag_session (Some ''foo'') (Some 50) None None (Some 1) (Some 1) False =
       Inr (Rows [flag_old])
   \<and> ProjectFlag_search flag_session (Some ''foo'') (Some 50) None None None None True =
       Inr (Count 2)"
proof -
  have pk: "primary_key p_id (t_projects flag_session)" by (simp add: primary_key_def)
  from flag_listing [OF pk, of "Some ''foo''" "Some 50" None None None None]
  obtain xs where
    r: "ProjectFlag_search flag_session (Some ''foo'') (Some 50) None None None None False =
          Inr (Rows xs)" and
    c: "ProjectFlag_search flag_session (Some ''foo'') (Some 50) None None None None True =
          Inr (Count (int (length xs)))" and
    sl: "\<forall>k n. 0 \<le> k \<and> 0 < n \<longrightarrow>
          ProjectFlag_search flag_session (Some ''foo'') (Some 50) None None (Some n) (Some k)
            False = Inr (Rows (take (nat n) (drop (nat k) xs)))"
    by blast
  have e: "ProjectFlag_search flag_session (Some ''foo'') (Some 50) None None None None False =
             Inr (Rows [flag_new, flag_old])"
    by (simp add: ProjectFlag_search_def session_query_def join_q_def filter_q_def
        order_by_desc_q_def listed_def all_q_def negative_def sliced_def)
  from r e have xs: "xs = [flag_new, flag_old]" by simp
  from sl have s1: "ProjectFlag_search flag_session (Some ''foo'') (Some 50) None None (Some 1)
      (Some 1) False = Inr (Rows (take (nat 1) (drop (nat 1) xs)))"
    by simp
  from pk e c s1 show ?thesis by (simp add: xs)
qed

text \<open>
  \<open>ProjectFlag.all\<close> on two flags created at 100 and at 200 returns the older flag
  first.
\<close>

theorem ProjectFlag_all_order_counterexample:
  "ProjectFlag_all flag_session PNone False = Inr (Rows [flag_old, flag_new])
   \<and> f_created_on flag_old < f_created_on flag_new
   \<and> \<not> newest_first f_created_on [flag_old, flag_new]"
  by (simp add: ProjectFlag_all_def listed_def all_q_def negative_def sliced_def
      order_by_q_def session_query_def newest_first_def)


text \<open>
  C9. In count mode \<open>Log.search\<close> and \<open>ProjectFlag.search\<close> return the number of rows that
  match the filters, whatever the offset and limit arguments are: the call with any offset
  and limit returns what the call without them returns.
\<close>

theorem search_count_ignores_slicing:
  "Log_search s pn fd u limit offset True =
     Inr (Count (int (length (filter (log_matches pn fd u) (t_logs s)))))
   \<and> Log_search s pn fd u limit offset True = Log_search s pn fd u None None True
   \<and> ProjectFlag_search s fpn ffd fu fstate limit offset True =
       ProjectFlag_search s fpn ffd fu fstate None None True
   \<and> (primary_key p_id (t_projects s) \<longrightarrow>
        ProjectFlag_search s fpn ffd fu fstate limit offset True =
          Inr (Count (int (length
            (filter (flag_matches (t_projects s) fpn ffd fu fstate) (t_flags s))))))"
proof -
  have "ProjectFlag_search s fpn ffd fu fstate limit offset True =
       ProjectFlag_search s fpn ffd fu fstate None None True"
    by (simp add: ProjectFlag_search_def)
  then show ?thesis by (simp add: Log_search_count ProjectFlag_search_count)
qed

theorem search_count_ignores_slicing_witness:
  "primary_key p_id (t_projects flag_session)
   \<and> Log_search flag_session (Some ''foo'') None (Users [''ann'', ''bob'']) (Some 1) (Some 1) True =
       Inr (Count 2)
   \<and> ProjectFlag_search flag_session None None None (Some ''open'') (Some 1) (Some 1) True =
       Inr (Count 1)"
proof -
  have pk: "primary_key p_id (t_projects flag_session)" by (simp add: primary_key_def)
  have a: "filter (log_matches (Some ''foo'') None (Users [''ann'', ''bob'']))
             (t_logs flag_session) = [log_old, log_new]"
    by (simp add: log_matches_def given_def)
  have b: "filter (flag_matches (t_projects flag_session) None None None (Some ''open''))
             (t_flags flag_session) = [flag_new]"
    by (simp add: flag_matches_def)
  show ?thesis
    using pk search_count_ignores_slicing
      [where s = flag_session and pn = "Some ''foo''" and fd = None
         and u = "Users [''ann'', ''bob'']" and limit = "Some 1" and offset = "Some 1"
         and fpn = None and ffd = None and fu = None and fstate = "Some ''open''"]
    unfolding a b by auto
qed

section \<open>Properties of the version scheme resolution\<close>

text \<open>
  C1. \<open>get_version_class\<close> resolves the scheme name in precedence order: the project's own
  \<open>version_scheme\<close> when it is set, whatever the ecosystem and the backend say; otherwise
  the default scheme of the project's ecosystem; otherwise, when the ecosystem level gives
  none, the default scheme of the project's backend; otherwise the global default. The
  result is what the registry of version schemes gives for the resolved name, so an error
  of the registry for an unknown name is the result, and no other name is tried.
\<close>

theorem get_version_class_precedence:
  "(\<forall>vs. p_version_scheme self = Some vs \<and> vs \<noteq> [] \<longrightarrow>
        get_version_class E B V D self = V vs)
   \<and> (\<forall>en eco d. \<not> given (p_version_scheme self) \<and> p_ecosystem_name self = Some en \<and> en \<noteq> []
          \<and> E en = Inr eco \<and> default_version_scheme eco = Some d \<and> d \<noteq> [] \<longrightarrow>
        get_version_class E B V D self = V d)
   \<and> (\<forall>b back d. \<not> given (p_version_scheme self) \<and> no_default E (p_ecosystem_name self)
          \<and> p_backend self = Some b \<and> b \<noteq> []
          \<and> B b = Inr back \<and> default_version_scheme back = Some d \<and> d \<noteq> [] \<longrightarrow>
        get_version_class E B V D self = V d)
   \<and> (\<not> given (p_version_scheme self) \<and> no_default E (p_ecosystem_name self)
          \<and> no_default B (p_backend self) \<longrightarrow>
        get_version_class E B V D self = V D)
   \<and> (\<forall>n e. V n = Inl e \<longrightarrow>
        (p_version_scheme self = Some n \<and> n \<noteq> [] \<longrightarrow> get_version_class E B V D self = Inl e)
        \<and> (\<not> given (p_version_scheme self) \<and> no_default E (p_ecosystem_name self)
              \<and> no_default B (p_backend self) \<and> n = D \<longrightarrow>
            get_version_class E B V D self = Inl e))"
  by (auto simp add: get_version_class_def given_def no_default_def
      split: option.splits sum.splits if_splits)

theorem get_version_class_precedence_witness:
  "get_version_class example_ecosystems example_backends example_versions ''RPM''
     (project_foo\<lparr>p_version_scheme := Some ''pep440'', p_ecosystem_name := Some ''crates.io''\<rparr>)
     = Inr ''pep440''
   \<and> get_version_class example_ecosystems example_backends example_versions ''RPM''
     (project_foo\<lparr>p_ecosystem_name := Some ''crates.io'', p_backend := Some ''PyPI''\<rparr>)
     = Inr ''semver''
   \<and> get_version_class example_ecosystems example_backends example_versions ''RPM''
     (project_foo\<lparr>p_backend := Some ''PyPI''\<rparr>) = Inr ''pep440''
   \<and> get_version_class example_ecosystems example_backends example_versions ''RPM'' project_foo
     = Inr ''RPM''
   \<and> get_version_class example_ecosystems example_backends example_versions ''RPM''
     (project_foo\<lparr>p_version_scheme := Some ''calver''\<rparr>) = Inl (PluginError ''calver'')"
  using
    get_version_class_precedence [of
      "project_foo\<lparr>p_version_scheme := Some ''pep440'', p_ecosystem_name := Some ''crates.io''\<rparr>"
      example_ecosystems example_backends example_versions "''RPM''"]
    get_version_class_precedence [of
      "project_foo\<lparr>p_ecosystem_name := Some ''crates.io'', p_backend := Some ''PyPI''\<rparr>"
      example_ecosystems example_backends example_versions "''RPM''"]
    get_version_class_precedence [of "project_foo\<lparr>p_backend := Some ''PyPI''\<rparr>"
      example_ecosystems example_backends example_versions "''RPM''"]
    get_version_class_precedence [of project_foo
      example_ecosystems example_backends example_versions "''RPM''"]
    get_version_class_precedence [of "project_foo\<lparr>p_version_scheme := Some ''calver''\<rparr>"
      example_ecosystems example_backends example_versions "''RPM''"]
  by (simp add: given_def no_default_def example_ecosystems_def example_backends_def
      example_versions_def)

section \<open>Properties of the status classification\<close>

lemma like_percent: "Some (CHR ''%'') \<noteq> esc \<Longrightarrow> like esc ''%'' s"
  by (induction s) simp_all

lemma like_prefix:
  "Some (CHR ''%'') \<noteq> esc \<Longrightarrow> \<forall>c \<in> set p. c \<noteq> CHR ''%'' \<and> c \<noteq> CHR ''_'' \<and> Some c \<noteq> esc \<Longrightarrow>
     like esc (p @ ''%'') s \<longleftrightarrow> take (length p) s = p"
proof (induction p arbitrary: s)
  case Nil
  then show ?case by (simp add: like_percent)
next
  case (Cons c p)
  then show ?case by (cases s) auto
qed

lemma lower_odd_pattern:
  "lower ''Something strange occured%'' = ''something strange occured%''"
  by code_simp

lemma ilike_odd:
  assumes "esc = None \<or> esc = Some (CHR 0x5C)"
  shows "ilike esc (Some l) ''Something strange occured%'' =
           Some (istarts_with ''Something strange occured'' l)"
proof -
  have p: "lower ''Something strange occured'' = ''something strange occured''"
    by code_simp
  have "like esc (''something strange occured'' @ ''%'') (lower l) \<longleftrightarrow>
          take (length ''something strange occured'') (lower l) = ''something strange occured''"
    using assms by (intro like_prefix) auto
  then show ?thesis
    by (simp add: ilike_def sql_like_def lower_odd_pattern istarts_with_def p)
      (simp add: lower_def take_map)
qed

lemma bucket_updated:
  "(\<lambda>p. holds (isnot_null (p_logs p))
        \<and> holds (sql_eq (p_logs p) ''Version retrieved correctly'')) = in_bucket ''updated''"
  by (rule ext) (auto simp add: in_bucket_def holds_def isnot_null_def sql_eq_def)

lemma bucket_failed:
  assumes "esc = None \<or> esc = Some (CHR 0x5C)"
  shows "(\<lambda>p. holds (isnot_null (p_logs p))
        \<and> holds (sql_ne (p_logs p) ''Version retrieved correctly'')
        \<and> holds (sql_not (ilike esc (p_logs p) ''Something strange occured%''))) =
     in_bucket ''failed''"
proof (rule ext)
  fix p
  show "(holds (isnot_null (p_logs p))
        \<and> holds (sql_ne (p_logs p) ''Version retrieved correctly'')
        \<and> holds (sql_not (ilike esc (p_logs p) ''Something strange occured%''))) =
     in_bucket ''failed'' p"
    by (cases "p_logs p")
      (simp_all add: in_bucket_def holds_def isnot_null_def sql_ne_def sql_not_def
        ilike_odd [OF assms])
qed

lemma bucket_odd:
  assumes "esc = None \<or> esc = Some (CHR 0x5C)"
  shows "(\<lambda>p. holds (isnot_null (p_logs p))
        \<and> holds (sql_ne (p_logs p) ''Version retrieved correctly'')
        \<and> holds (ilike esc (p_logs p) ''Something strange occured%'')) =
     in_bucket ''odd''"
proof (rule ext)
  fix p
  show "(holds (isnot_null (p_logs p))
        \<and> holds (sql_ne (p_logs p) ''Version retrieved correctly'')
        \<and> holds (ilike esc (p_logs p) ''Something strange occured%'')) =
     in_bucket ''odd'' p"
    by (cases "p_logs p")
      (simp_all add: in_bucket_def holds_def isnot_null_def sql_ne_def
        ilike_odd [OF assms])
qed

lemma bucket_new: "(\<lambda>p. holds (is_null (p_logs p))) = in_bucket ''new''"
  by (rule ext) (simp add: in_bucket_def holds_def is_null_def)

lemma bucket_never_updated:
  "(\<lambda>p. holds (isnot_null (p_logs p))
        \<and> holds (sql_ne (p_logs p) ''Version retrieved correctly'')
        \<and> holds (is_null (p_latest_version p))) = in_bucket ''never_updated''"
  by (rule ext)
    (auto simp add: in_bucket_def holds_def isnot_null_def is_null_def sql_ne_def
      split: option.splits)

lemma bucket_other:
  "status \<noteq> ''updated'' \<Longrightarrow> status \<noteq> ''failed'' \<Longrightarrow> status \<noteq> ''odd'' \<Longrightarrow>
   status \<noteq> ''new'' \<Longrightarrow> status \<noteq> ''never_updated'' \<Longrightarrow> filter (in_bucket status) xs = xs"
  by (simp add: in_bucket_def [abs_def])

lemma listing_whole:
  "unsliced q \<Longrightarrow> listed (all_q (paginate_query to_int q PNone)) = Inr (Rows (rows q))"
  by (simp add: paginate_query_zero listed_def all_unsliced)

lemma odd_pattern_accepted:
  assumes "esc = None \<or> esc = Some (CHR 0x5C)"
  shows "\<not> rejected esc (lower ''Something strange occured%'')"
proof -
  have "\<not> rejected None ''something strange occured%''" by code_simp
  moreover have "\<not> rejected (Some (CHR 0x5C)) ''something strange occured%''" by code_simp
  ultimately show ?thesis using assms by (auto simp add: lower_odd_pattern)
qed

lemma Project_updated_rows:
  assumes "esc = None \<or> esc = Some (CHR 0x5C)"
  shows "Project_updated to_int esc s status None None PNone False =
     Inr (Rows (sort_key (\<lambda>p. lower (p_name p)) (filter (in_bucket status) (t_projects s))))"
proof -
  note acc = odd_pattern_accepted [OF assms]
  have f: "filter P (sort_key k xs) = sort_key k (filter P xs)"
    for P and k :: "Project \<Rightarrow> string" and xs
    by (rule filter_sort)
  consider (u) "status = ''updated''" | (f) "status = ''failed''" | (o) "status = ''odd''"
    | (n) "status = ''new''" | (nu) "status = ''never_updated''"
    | (other) "status \<noteq> ''updated''" "status \<noteq> ''failed''" "status \<noteq> ''odd''"
        "status \<noteq> ''new''" "status \<noteq> ''never_updated''"
    by blast
  then show ?thesis
  proof cases
    case u
    then show ?thesis
      by (simp add: Project_updated_def Let_def acc listing_whole unsliced_simps rows_simps f
          bucket_updated)
  next
    case f
    then show ?thesis
      by (simp add: Project_updated_def Let_def acc listing_whole unsliced_simps rows_simps filter_sort
          bucket_failed [OF assms])
  next
    case o
    then show ?thesis
      by (simp add: Project_updated_def Let_def acc listing_whole unsliced_simps rows_simps filter_sort
          bucket_odd [OF assms])
  next
    case n
    then show ?thesis
      by (simp add: Project_updated_def Let_def acc listing_whole unsliced_simps rows_simps filter_sort
          bucket_new)
  next
    case nu
    then show ?thesis
      by (simp add: Project_updated_def Let_def acc listing_whole unsliced_simps rows_simps filter_sort
          bucket_never_updated)
  next
    case other
    then show ?thesis
      by (simp add: Project_updated_def Let_def acc listing_whole unsliced_simps rows_simps bucket_other)
  qed
qed


lemma in_bucket_simps:
  "in_bucket ''updated'' p = (p_logs p = Some ''Version retrieved correctly'')"
  "in_bucket ''failed'' p =
     (case p_logs p of
        None \<Rightarrow> False
      | Some l \<Rightarrow> l \<noteq> ''Version retrieved correctly''
          \<and> \<not> istarts_with ''Something strange occured'' l)"
  "in_bucket ''odd'' p =
     (case p_logs p of
        None \<Rightarrow> False
      | Some l \<Rightarrow> l \<noteq> ''Version retrieved correctly''
          \<and> istarts_with ''Something strange occured'' l)"
  "in_bucket ''new'' p = (p_logs p = None)"
  "in_bucket ''never_updated'' p =
     ((case p_logs p of None \<Rightarrow> False | Some l \<Rightarrow> l \<noteq> ''Version retrieved correctly'')
      \<and> p_latest_version p = None)"
  by (simp_all add: in_bucket_def)

text \<open>
  C2 (amended). For the escape character of either dialect, \<open>Project.updated\<close> with a
  status and no other filter returns exactly the projects of that status, ordered by
  lower-cased name: \<open>updated\<close> those whose logs are the sentinel; \<open>failed\<close> those whose
  logs are not null, differ from the sentinel and do not begin, case ignored, with
  "Something strange occured"; \<open>odd\<close> those whose non-null, non-sentinel logs begin so;
  \<open>new\<close> those with null logs; \<open>never_updated\<close> those with non-null, non-sentinel logs
  and null latest version. The buckets \<open>updated\<close>, \<open>failed\<close>, \<open>odd\<close> and \<open>new\<close> are
  pairwise disjoint; \<open>never_updated\<close> is disjoint from \<open>updated\<close> and \<open>new\<close> and lies
  inside the union of \<open>failed\<close> and \<open>odd\<close>.
\<close>

theorem status_buckets:
  assumes "esc = None \<or> esc = Some (CHR 0x5C)"
  shows "Project_updated to_int esc s status None None PNone False =
           Inr (Rows (sort_key (\<lambda>p. lower (p_name p)) (filter (in_bucket status) (t_projects s))))
         \<and> (\<forall>p. \<not> (in_bucket ''updated'' p \<and> in_bucket ''failed'' p)
               \<and> \<not> (in_bucket ''updated'' p \<and> in_bucket ''odd'' p)
               \<and> \<not> (in_bucket ''updated'' p \<and> in_bucket ''new'' p)
               \<and> \<not> (in_bucket ''failed'' p \<and> in_bucket ''odd'' p)
               \<and> \<not> (in_bucket ''failed'' p \<and> in_bucket ''new'' p)
               \<and> \<not> (in_bucket ''odd'' p \<and> in_bucket ''new'' p))
         \<and> (\<forall>p. in_bucket ''never_updated'' p \<longrightarrow>
               \<not> in_bucket ''updated'' p \<and> \<not> in_bucket ''new'' p
               \<and> (in_bucket ''failed'' p \<or> in_bucket ''odd'' p))"
proof -
  have disjoint: "\<forall>p. \<not> (in_bucket ''updated'' p \<and> in_bucket ''failed'' p)
               \<and> \<not> (in_bucket ''updated'' p \<and> in_bucket ''odd'' p)
               \<and> \<not> (in_bucket ''updated'' p \<and> in_bucket ''new'' p)
               \<and> \<not> (in_bucket ''failed'' p \<and> in_bucket ''odd'' p)
               \<and> \<not> (in_bucket ''failed'' p \<and> in_bucket ''new'' p)
               \<and> \<not> (in_bucket ''odd'' p \<and> in_bucket ''new'' p)"
    by (auto simp add: in_bucket_simps split: option.splits)
  have overlap: "\<forall>p. in_bucket ''never_updated'' p \<longrightarrow>
               \<not> in_bucket ''updated'' p \<and> \<not> in_bucket ''new'' p
               \<and> (in_bucket ''failed'' p \<or> in_bucket ''odd'' p)"
    by (auto simp add: in_bucket_simps split: option.splits)
  from Project_updated_rows [OF assms] disjoint overlap show ?thesis by blast
qed

theorem status_buckets_witness:
  "Project_updated decimal (Some (CHR 0x5C)) status_session ''new'' None None PNone False =
     Inr (Rows [])
   \<and> Project_updated decimal (Some (CHR 0x5C)) status_session ''odd'' None None PNone False =
     Inr (Rows [project_shout])
   \<and> \<not> (in_bucket ''failed'' project_shout \<and> in_bucket ''odd'' project_shout)
   \<and> in_bucket ''failed'' project_foo"
proof -
  have e: "Some (CHR 0x5C) = None \<or> Some (CHR 0x5C) = Some (CHR 0x5C)" by simp
  have n: "filter (in_bucket ''new'') (t_projects status_session) = []"
    by code_simp
  have o: "filter (in_bucket ''odd'') (t_projects status_session) = [project_shout]"
    by code_simp
  have f: "in_bucket ''never_updated'' project_foo"
    by code_simp
  have g: "\<not> in_bucket ''odd'' project_foo"
    by code_simp
  from status_buckets [OF e, of decimal status_session "''new''"]
    status_buckets [OF e, of decimal status_session "''odd''"] f g
  show ?thesis
    unfolding n o by auto
qed

text \<open>
  A project with logs "No upstream version found" and no latest version is returned for
  \<open>failed\<close> and for \<open>never_updated\<close>; a project whose logs begin with the prefix in upper
  case is returned for \<open>odd\<close>.
\<close>

theorem status_buckets_overlap_counterexample:
  "Project_updated decimal (Some (CHR 0x5C)) status_session ''failed'' None None PNone False =
     Inr (Rows [project_foo])
   \<and> Project_updated decimal (Some (CHR 0x5C)) status_session ''never_updated'' None None PNone
       False = Inr (Rows [project_foo])
   \<and> Project_updated decimal (Some (CHR 0x5C)) status_session ''odd'' None None PNone False =
     Inr (Rows [project_shout])
   \<and> take (length ''Something strange occured'') ''SOMETHING STRANGE OCCURED: two versions'' \<noteq>
       ''Something strange occured''"
proof -
  have e: "Some (CHR 0x5C) = None \<or> Some (CHR 0x5C) = Some (CHR 0x5C)" by simp
  have f: "filter (in_bucket ''failed'') (t_projects status_session) = [project_foo]"
    by code_simp
  have n: "filter (in_bucket ''never_updated'') (t_projects status_session) = [project_foo]"
    by code_simp
  have o: "filter (in_bucket ''odd'') (t_projects status_session) = [project_shout]"
    by code_simp
  have t: "take (length ''Something strange occured'')
             ''SOMETHING STRANGE OCCURED: two versions'' \<noteq> ''Something strange occured''"
    by code_simp
  show ?thesis
    unfolding Project_updated_rows [OF e] f n o using t by simp
qed


section \<open>Properties of the search translation\<close>

lemma replace_char:
  "replace [c] new s = concat (map (\<lambda>x. if x = c then new else [x]) s)"
  by (induction s) simp_all

lemma replace_star: "replace ''*'' ''%'' s = star_to_percent s"
  by (induction s) (simp_all add: star_to_percent_def)

lemma star_absent: "CHR ''*'' \<notin> set s \<Longrightarrow> star_to_percent s = s"
  by (induction s) (auto simp add: star_to_percent_def)

lemma replace_underscore: "replace ''_'' [CHR 0x5C, CHR ''_''] s = escape_underscores s"
  by (simp add: replace_char escape_underscores_def)

lemma translate_eq: "translate pat = star_to_percent (escape_underscores pat)"
  by (simp add: translate_def Let_def replace_star replace_underscore star_absent)

lemma translate_nonempty: "pat \<noteq> [] \<Longrightarrow> translate pat \<noteq> []"
  by (cases pat) (simp_all add: translate_eq star_to_percent_def escape_underscores_def)

lemma Distro_search_rows:
  "accepted esc (star_to_percent pat) \<Longrightarrow>
   Distro_search to_int esc s pat PNone False =
     Inr (Rows (remdups (sort_key d_name
       (filter (\<lambda>d. like esc (lower (star_to_percent pat)) (lower (d_name d))) (t_distros s)))))"
proof -
  assume a: "accepted esc (star_to_percent pat)"
  have p: "(if CHR ''*'' \<in> set pat then replace ''*'' ''%'' pat else pat) = star_to_percent pat"
    by (simp add: replace_star star_absent)
  show ?thesis
    using a unfolding Distro_search_def p
    by (simp add: Let_def accepted_def listing_whole unsliced_simps rows_simps
        distinct_q_def unsliced_def order_by_q_def filter_q_def
        session_query_def holds_def sql_like_def)
qed

lemma name_filter:
  "(if CHR ''%'' \<in> set t then filter_q (\<lambda>p. holds (ilike esc (Some (p_name p)) t)) q
    else filter_q (\<lambda>p. p_name p = t) q) = filter_q (\<lambda>p. matches esc t (p_name p)) q"
  by (simp add: matches_def holds_def ilike_def sql_like_def)

lemma package_filter:
  "(if CHR ''%'' \<in> set t then filter_q (\<lambda>(p, k). holds (ilike esc (k_package_name k) t)) q
    else filter_q (\<lambda>(p, k). holds (sql_eq (k_package_name k) t)) q) =
   filter_q (\<lambda>(p, k). case k_package_name k of None \<Rightarrow> False | Some n \<Rightarrow> matches esc t n) q"
proof -
  have "holds (ilike esc v t) = (case v of None \<Rightarrow> False | Some n \<Rightarrow> like esc (lower t) (lower n))"
    for v
    by (cases v) (simp_all add: holds_def ilike_def sql_like_def)
  moreover have "holds (sql_eq v t) = (case v of None \<Rightarrow> False | Some n \<Rightarrow> n = t)" for v
    by (cases v) (simp_all add: holds_def sql_eq_def)
  ultimately show ?thesis by (simp add: matches_def cong: option.case_cong)
qed

lemma Project_search_unfolded:
  assumes "pat \<noteq> []"
    and "CHR ''%'' \<in> set (translate pat) \<longrightarrow> accepted esc (translate pat)"
  shows "Project_search to_int esc s (Some pat) None PNone False =
     Inr (Rows (sort_key p_name (remdups
       (remdups (filter (\<lambda>p. matches esc (translate pat) (p_name p)) (t_projects s)) @
        remdups (map fst
          (filter (\<lambda>(p, k). case k_package_name k of
                                None \<Rightarrow> False
                              | Some n \<Rightarrow> matches esc (translate pat) n)
            (filter (\<lambda>(p, k). holds (sql_eq (k_project_id k) (p_id p)))
              (List.product (t_projects s) (t_packages s)))))))))"
  using assms translate_nonempty [OF assms(1)]
  by (simp add: Project_search_def Let_def accepted_def given_def name_filter package_filter
      listing_whole unsliced_def rows_simps distinct_q_def union_q_def entity_q_def cross_q_def
      order_by_q_def filter_q_def session_query_def)

lemma joined_projects:
  "fst ` {x \<in> set (List.product ps ks).
            (case x of (p, k) \<Rightarrow> holds (sql_eq (k_project_id k) (p_id p)))
            \<and> (case x of (p, k) \<Rightarrow>
                  case k_package_name k of None \<Rightarrow> False | Some n \<Rightarrow> matches esc t n)} =
     {p \<in> set ps. \<exists>k \<in> set ks. package_matches esc t p k}"
  by (force simp add: package_matches_def holds_def sql_eq_def)

lemma Project_search_rows:
  assumes "pat \<noteq> []"
    and "CHR ''%'' \<in> set (translate pat) \<longrightarrow> accepted esc (translate pat)"
  shows "\<exists>found. Project_search to_int esc s (Some pat) None PNone False = Inr (Rows found)
     \<and> set found = {p \<in> set (t_projects s). matches esc (translate pat) (p_name p)
                       \<or> (\<exists>k \<in> set (t_packages s). package_matches esc (translate pat) p k)}
     \<and> sorted (map p_name found) \<and> distinct found"
proof -
  let ?found = "sort_key p_name (remdups
       (remdups (filter (\<lambda>p. matches esc (translate pat) (p_name p)) (t_projects s)) @
        remdups (map fst
          (filter (\<lambda>(p, k). case k_package_name k of
                                None \<Rightarrow> False
                              | Some n \<Rightarrow> matches esc (translate pat) n)
            (filter (\<lambda>(p, k). holds (sql_eq (k_project_id k) (p_id p)))
              (List.product (t_projects s) (t_packages s)))))))"
  have 1: "Project_search to_int esc s (Some pat) None PNone False = Inr (Rows ?found)"
    using assms by (rule Project_search_unfolded)
  have "set ?found = {p \<in> set (t_projects s). matches esc (translate pat) (p_name p)}
          \<union> fst ` {x \<in> set (List.product (t_projects s) (t_packages s)).
            (case x of (p, k) \<Rightarrow> holds (sql_eq (k_project_id k) (p_id p)))
            \<and> (case x of (p, k) \<Rightarrow>
                  case k_package_name k of None \<Rightarrow> False | Some n \<Rightarrow> matches esc (translate pat) n)}"
    by simp
  then have 2: "set ?found = {p \<in> set (t_projects s). matches esc (translate pat) (p_name p)
                       \<or> (\<exists>k \<in> set (t_packages s). package_matches esc (translate pat) p k)}"
    unfolding joined_projects by blast
  have 3: "sorted (map p_name ?found)" by (rule sorted_sort_key)
  have 4: "distinct ?found" by (simp only: distinct_sort distinct_remdups)
  from 1 2 3 4 show ?thesis by blast
qed

text \<open>
  C3 (amended). \<open>Project.search\<close> escapes every underscore of the pattern with a
  backslash and turns every \<open>*\<close> into \<open>%\<close>; with a pattern given it returns, ordered
  by name and without duplicates, the projects whose name, or the name of one of whose
  packages, matches the translated pattern: by equality when the translated pattern has
  no \<open>%\<close>, by the case-insensitive pattern match when it has one and the engine accepts
  it. \<open>Distro.search\<close> turns every \<open>*\<close> into \<open>%\<close> and, for a pattern that the engine
  accepts, returns the distributions whose lower-cased name matches the lower-cased
  pattern in a pattern match, whether or not it has a \<open>%\<close>.
\<close>

theorem search_translation:
  "translate pat = star_to_percent (escape_underscores pat)
   \<and> (pat \<noteq> [] \<and> (CHR ''%'' \<in> set (translate pat) \<longrightarrow> accepted esc (translate pat)) \<longrightarrow>
        (\<exists>found. Project_search to_int esc s (Some pat) None PNone False = Inr (Rows found)
           \<and> set found =
               {p \<in> set (t_projects s). matches esc (translate pat) (p_name p)
                  \<or> (\<exists>k \<in> set (t_packages s). package_matches esc (translate pat) p k)}
           \<and> sorted (map p_name found) \<and> distinct found))
   \<and> (accepted esc (star_to_percent pat) \<longrightarrow>
        Distro_search to_int esc s pat PNone False =
          Inr (Rows (remdups (sort_key d_name
            (filter (\<lambda>d. like esc (lower (star_to_percent pat)) (lower (d_name d)))
               (t_distros s))))))"
  using translate_eq [of pat] Project_search_rows [of pat esc to_int s]
    Distro_search_rows [of esc pat to_int s]
  by blast

theorem search_translation_witness:
  "translate ''f_o*'' = [CHR ''f'', CHR 0x5C, CHR ''_'', CHR ''o'', CHR ''%'']
   \<and> accepted (Some (CHR 0x5C)) (translate ''f_o*'')
   \<and> Project_search decimal (Some (CHR 0x5C)) search_session (Some ''f_o*'') None PNone False =
       Inr (Rows [])
   \<and> accepted (Some (CHR 0x5C)) (star_to_percent ''fed*'')
   \<and> Distro_search decimal (Some (CHR 0x5C)) search_session ''fed*'' PNone False =
       Inr (Rows [distro_fedora])
   \<and> Project_search decimal (Some (CHR 0x5C)) search_session (Some ''foo'') None PNone False =
       Inr (Rows [project_shout, project_foo])
   \<and> set [project_shout, project_foo] =
       {p \<in> set (t_projects search_session).
          matches (Some (CHR 0x5C)) (translate ''foo'') (p_name p)
          \<or> (\<exists>k \<in> set (t_packages search_session).
                package_matches (Some (CHR 0x5C)) (translate ''foo'') p k)}
   \<and> Project_search decimal (Some (CHR 0x5C)) search_session (Some [CHR ''*'', CHR 0x5C]) None
       PNone False = Inl StorageError"
proof -
  have t: "star_to_percent (escape_underscores ''f_o*'') =
             [CHR ''f'', CHR 0x5C, CHR ''_'', CHR ''o'', CHR ''%'']"
    by code_simp
  have a1: "accepted (Some (CHR 0x5C)) (translate ''f_o*'')" by code_simp
  have a2: "accepted (Some (CHR 0x5C)) (star_to_percent ''fed*'')" by code_simp
  have a3: "CHR ''%'' \<notin> set (translate ''foo'')" by code_simp
  have d: "remdups (sort_key d_name
         (filter (\<lambda>d. like (Some (CHR 0x5C)) (lower (star_to_percent ''fed*'')) (lower (d_name d)))
            (t_distros search_session))) = [distro_fedora]"
    by code_simp
  have p: "Project_search decimal (Some (CHR 0x5C)) search_session (Some ''f_o*'') None PNone False =
       Inr (Rows [])"
    by code_simp
  have q: "Project_search decimal (Some (CHR 0x5C)) search_session (Some ''foo'') None PNone False =
       Inr (Rows [project_shout, project_foo])"
    by code_simp
  have r: "Project_search decimal (Some (CHR 0x5C)) search_session (Some [CHR ''*'', CHR 0x5C]) None
       PNone False = Inl StorageError"
    by code_simp
  from search_translation [of "''f_o*''" "Some (CHR 0x5C)" decimal search_session]
  have 1: "translate ''f_o*'' = [CHR ''f'', CHR 0x5C, CHR ''_'', CHR ''o'', CHR ''%'']"
    unfolding t by blast
  from search_translation [of "''fed*''" "Some (CHR 0x5C)" decimal search_session] a2
  have 2: "Distro_search decimal (Some (CHR 0x5C)) search_session ''fed*'' PNone False =
       Inr (Rows [distro_fedora])"
    unfolding d by blast
  have "''foo'' \<noteq> []" by simp
  with search_translation [of "''foo''" "Some (CHR 0x5C)" decimal search_session] a3
  obtain found where
    "Project_search decimal (Some (CHR 0x5C)) search_session (Some ''foo'') None PNone False =
       Inr (Rows found)"
    and f: "set found =
       {p \<in> set (t_projects search_session).
          matches (Some (CHR 0x5C)) (translate ''foo'') (p_name p)
          \<or> (\<exists>k \<in> set (t_packages search_session).
                package_matches (Some (CHR 0x5C)) (translate ''foo'') p k)}"
    by blast
  with q have "found = [project_shout, project_foo]" by simp
  with f have 3: "set [project_shout, project_foo] =
       {p \<in> set (t_projects search_session).
          matches (Some (CHR 0x5C)) (translate ''foo'') (p_name p)
          \<or> (\<exists>k \<in> set (t_packages search_session).
                package_matches (Some (CHR 0x5C)) (translate ''foo'') p k)}"
    by simp
  from 1 2 3 p q r a1 a2 show ?thesis by blast
qed

text \<open>
  \<open>Distro.search\<close> finds the distribution "Fedora" for the pattern "FEDORA", which has
  no wildcard and is not equal to the name, and for the pattern "F_dora", whose underscore
  it does not escape.
\<close>

theorem Distro_search_counterexample:
  "Distro_search decimal (Some (CHR 0x5C)) search_session ''FEDORA'' PNone False =
     Inr (Rows [distro_fedora])
   \<and> CHR ''%'' \<notin> set (star_to_percent ''FEDORA'')
   \<and> d_name distro_fedora \<noteq> ''FEDORA''
   \<and> Distro_search decimal (Some (CHR 0x5C)) search_session ''F_dora'' PNone False =
     Inr (Rows [distro_fedora])
   \<and> d_name distro_fedora \<noteq> ''F_dora''"
  by code_simp


section \<open>Properties of the identity type\<close>

lemma length_hex_digits: "length (hex_digits k n) = k"
  by (induction k arbitrary: n) simp_all

lemma hex_digit_lower: "hex_digit d \<in> set ''0123456789abcdef''"
  unfolding hex_digit_def by (rule nth_mem) simp

lemma hex_digits_lower: "c \<in> set (hex_digits k n) \<Longrightarrow> c \<in> set ''0123456789abcdef''"
proof (induction k arbitrary: n)
  case 0
  then show ?case by simp
next
  case (Suc k)
  from Suc.prems have "c \<in> set (hex_digits k (n div 16)) \<or> c = hex_digit (n mod 16)"
    by auto
  then show ?case using Suc.IH hex_digit_lower by blast
qed

lemma hex_number_append:
  "hex_number acc (xs @ [c]) =
     (case hex_number acc xs of
        None \<Rightarrow> None
      | Some m \<Rightarrow> (case hex_value c of None \<Rightarrow> None | Some d \<Rightarrow> Some (16 * m + d)))"
  by (induction xs arbitrary: acc) (simp_all split: option.splits)

lemma hex_value_all: "list_all (\<lambda>d. hex_value (hex_digit d) = Some d) [0..<16]"
  by code_simp

lemma hex_value_digit: "d < 16 \<Longrightarrow> hex_value (hex_digit d) = Some d"
  using hex_value_all by (simp add: list_all_iff)

lemma hex_number_digits: "hex_number 0 (hex_digits k n) = Some (n mod 16 ^ k)"
proof (induction k arbitrary: n)
  case 0
  show ?case by simp
next
  case (Suc k)
  have "n mod (16 * 16 ^ k) = 16 * (n div 16 mod 16 ^ k) + n mod 16"
    by (rule mod_mult2_eq)
  with Suc show ?case by (simp add: hex_number_append hex_value_digit)
qed

lemma replace_absent: "old \<noteq> [] \<Longrightarrow> hd old \<notin> set s \<Longrightarrow> replace old new s = s"
proof (induction s)
  case Nil
  then show ?case by simp
next
  case (Cons c cs)
  then have "take (length old) (c # cs) \<noteq> old"
    by (cases old) auto
  with Cons show ?case by simp
qed

lemma strip_braces_id: "\<forall>c \<in> set s. \<not> brace c \<Longrightarrow> strip_braces s = s"
proof -
  assume a: "\<forall>c \<in> set s. \<not> brace c"
  have d: "dropWhile brace xs = xs" if "\<forall>c \<in> set xs. \<not> brace c" for xs
    using that by (cases xs) simp_all
  from a have "dropWhile brace s = s" by (rule d)
  moreover from a have "dropWhile brace (rev s) = rev s" by (intro d) simp
  ultimately show ?thesis by (simp add: strip_braces_def)
qed

lemma remove_hyphens: "replace ''-'' [] s = filter (\<lambda>c. c \<noteq> CHR ''-'') s"
  by (induction s) simp_all

lemma length_hex32: "length (hex32 u) = 32"
  by (simp add: hex32_def length_hex_digits)

lemma hex32_lower: "c \<in> set (hex32 u) \<Longrightarrow> c \<in> set ''0123456789abcdef''"
  unfolding hex32_def by (rule hex_digits_lower)

lemma hex32_plain:
  "CHR ''u'' \<notin> set (hex32 u)" "CHR ''-'' \<notin> set (hex32 u)"
  "\<forall>c \<in> set (hex32 u). \<not> brace c"
  using hex32_lower [of _ u] by (auto simp add: brace_def)

lemma hex_number_hex32: "hex_number 0 (hex32 u) = Some (unat u)"
proof -
  have "unat u < 2 ^ LENGTH(128)" by (rule unsigned_less)
  then have "unat u < 2 ^ 128" by simp
  then have "unat u mod 16 ^ 32 = unat u" by simp
  then show ?thesis by (simp add: hex32_def hex_number_digits)
qed

lemma UUID_hex32: "UUID (hex32 u) = Inr u"
proof -
  have 1: "replace ''urn:'' [] (hex32 u) = hex32 u"
    by (rule replace_absent) (simp_all add: hex32_plain)
  have 2: "replace ''uuid:'' [] (hex32 u) = hex32 u"
    by (rule replace_absent) (simp_all add: hex32_plain)
  have 3: "strip_braces (hex32 u) = hex32 u"
    by (rule strip_braces_id) (rule hex32_plain)
  have 4: "replace ''-'' [] (hex32 u) = hex32 u"
    by (rule replace_absent) (simp_all add: hex32_plain)
  show ?thesis by (simp add: UUID_def 1 2 3 4 length_hex32 hex_number_hex32)
qed

lemma regroup:
  "take 8 h @ take 4 (drop 8 h) @ take 4 (drop 12 h) @ take 4 (drop 16 h) @ drop 20 h = h"
proof -
  have a: "take 4 (drop 16 h) @ drop 20 h = drop 16 h"
    using append_take_drop_id [of 4 "drop 16 h"] by simp
  have b: "take 4 (drop 12 h) @ drop 16 h = drop 12 h"
    using append_take_drop_id [of 4 "drop 12 h"] by simp
  have c: "take 4 (drop 8 h) @ drop 12 h = drop 8 h"
    using append_take_drop_id [of 4 "drop 8 h"] by simp
  show ?thesis by (simp only: a b c append_take_drop_id)
qed

lemma UUID_str_chars: "c \<in> set (UUID_str u) \<Longrightarrow> c = CHR ''-'' \<or> c \<in> set (hex32 u)"
  by (auto simp add: UUID_str_def Let_def dest: in_set_takeD in_set_dropD)

lemma UUID_str_plain:
  "CHR ''u'' \<notin> set (UUID_str u)" "\<forall>c \<in> set (UUID_str u). \<not> brace c"
  using UUID_str_chars [of _ u] hex32_lower [of _ u] by (auto simp add: brace_def)

lemma filter_piece:
  "CHR ''-'' \<notin> set h \<Longrightarrow> filter (\<lambda>c. c \<noteq> CHR ''-'') (take n (drop k h)) = take n (drop k h)"
  "CHR ''-'' \<notin> set h \<Longrightarrow> filter (\<lambda>c. c \<noteq> CHR ''-'') (take n h) = take n h"
  "CHR ''-'' \<notin> set h \<Longrightarrow> filter (\<lambda>c. c \<noteq> CHR ''-'') (drop k h) = drop k h"
  by (auto simp add: filter_id_conv dest: in_set_takeD in_set_dropD)

lemma UUID_str_hyphens: "filter (\<lambda>c. c \<noteq> CHR ''-'') (UUID_str u) = hex32 u"
  by (simp add: UUID_str_def Let_def filter_piece hex32_plain regroup)

lemma UUID_UUID_str: "UUID (UUID_str u) = Inr u"
proof -
  have 1: "replace ''urn:'' [] (UUID_str u) = UUID_str u"
    by (rule replace_absent) (simp_all add: UUID_str_plain)
  have 2: "replace ''uuid:'' [] (UUID_str u) = UUID_str u"
    by (rule replace_absent) (simp_all add: UUID_str_plain)
  have 3: "strip_braces (UUID_str u) = UUID_str u"
    by (rule strip_braces_id) (rule UUID_str_plain)
  show ?thesis
    by (simp add: UUID_def 1 2 3 remove_hyphens UUID_str_hyphens length_hex32 hex_number_hex32)
qed

text \<open>
  C6. On a dialect other than PostgreSQL, \<open>process_bind_param\<close> encodes a UUID, given as
  a \<open>uuid.UUID\<close>, as its string form or as any string that \<open>uuid.UUID\<close> reads as it, as
  the same 32 lower-case hexadecimal digits, with no hyphen, and \<open>process_result_value\<close>
  decodes these digits to the UUID. On PostgreSQL the bound value is the string form, which
  \<open>process_result_value\<close> decodes to the UUID.
\<close>

theorem guid_round_trip:
  "(dialect_name \<noteq> ''postgresql'' \<longrightarrow>
      process_bind_param (Some (UuidValue u)) dialect_name = Inr (Some (hex32 u))
      \<and> process_bind_param (Some (StrValue (UUID_str u))) dialect_name = Inr (Some (hex32 u))
      \<and> (\<forall>s. UUID s = Inr u \<longrightarrow>
            process_bind_param (Some (StrValue s)) dialect_name = Inr (Some (hex32 u))))
   \<and> length (hex32 u) = 32
   \<and> (\<forall>c \<in> set (hex32 u). c \<in> set ''0123456789abcdef'')
   \<and> process_result_value (Some (hex32 u)) dialect_name = Inr (Some u)
   \<and> process_bind_param (Some (UuidValue u)) ''postgresql'' = Inr (Some (UUID_str u))
   \<and> process_bind_param (Some (StrValue (UUID_str u))) ''postgresql'' = Inr (Some (UUID_str u))
   \<and> process_result_value (Some (UUID_str u)) ''postgresql'' = Inr (Some u)"
proof -
  have lower: "\<forall>c \<in> set (hex32 u). c \<in> set ''0123456789abcdef''"
    using hex32_lower [of _ u] by blast
  show ?thesis
    using lower
    by (simp add: process_bind_param_def process_result_value_def UUID_hex32 UUID_UUID_str
        length_hex32)
qed

theorem guid_round_trip_witness:
  "''sqlite'' \<noteq> ''postgresql''
   \<and> hex32 5 = ''00000000000000000000000000000005''
   \<and> process_bind_param (Some (UuidValue 5)) ''sqlite'' =
       Inr (Some ''00000000000000000000000000000005'')
   \<and> process_result_value (Some ''00000000000000000000000000000005'') ''sqlite'' = Inr (Some 5)
   \<and> process_bind_param (Some (StrValue (UUID_str 5))) ''sqlite'' =
       Inr (Some ''00000000000000000000000000000005'')"
proof -
  have n: "unat (5 :: uuid) = 5" by simp
  have d: "hex_digits 32 5 = ''00000000000000000000000000000005''" by code_simp
  have h: "hex32 5 = ''00000000000000000000000000000005''"
    by (simp only: hex32_def n d)
  have ne: "''sqlite'' \<noteq> ''postgresql''" by simp
  from guid_round_trip [of "''sqlite''" 5] ne h show ?thesis by simp
qed


end
